(* ===== verification/Prelude.thy ===== *)
theory Prelude
  imports Main
begin

text \<open>
  Shared vocabulary of the development of \<^verbatim>\<open>src/pro.py\<close>.

  \<^item> An exception-and-state monad \<open>('e, 's, 'a) exc\<close>: a computation takes the state of
    the world and returns either a raised exception (\<open>Inl\<close>) or a value (\<open>Inr\<close>),
    together with the world as the computation left it. A Python exception does not
    undo what was done before it was raised (lines already printed stay printed), so
    the world is returned on both sides. The operations are generic in the error and
    state types; the Python runtime instantiates them in \<open>Os_World\<close>.
  \<^item> Decimal printing and reading of natural numbers (\<open>show_nat\<close>, \<open>zfill\<close>,
    \<open>read_nat\<close>) with their round-trip and length lemmas, used by the model of
    \<^verbatim>\<open>strftime\<close> in \<open>Timestamp\<close>.
\<close>

named_theorems exc_simps \<open>evaluation rules of the exception-state monad\<close>

section \<open>Definitions\<close>

type_synonym ('e, 's, 'a) exc = "'s \<Rightarrow> ('e + 'a) \<times> 's"

definition returnE :: "'a \<Rightarrow> ('e, 's, 'a) exc" where
  "returnE a = (\<lambda>s. (Inr a, s))"

definition throwE :: "'e \<Rightarrow> ('e, 's, 'a) exc" where
  "throwE e = (\<lambda>s. (Inl e, s))"

definition bindE :: "('e, 's, 'a) exc \<Rightarrow> ('a \<Rightarrow> ('e, 's, 'b) exc) \<Rightarrow> ('e, 's, 'b) exc" where
  "bindE m f = (\<lambda>s. case m s of (Inl e, s') \<Rightarrow> (Inl e, s') | (Inr a, s') \<Rightarrow> f a s')"

definition thenE :: "('e, 's, 'a) exc \<Rightarrow> ('e, 's, 'b) exc \<Rightarrow> ('e, 's, 'b) exc" where
  "thenE m n = bindE m (\<lambda>_. n)"

text \<open>
  \<open>catchE m h\<close> is \<^verbatim>\<open>try: m except ...: h\<close>: the handler receives the raised
  exception and the world at the point of the raise. A handler that does not match the
  exception re-raises it with \<open>throwE\<close>, as Python does when no \<^verbatim>\<open>except\<close> clause
  matches.
\<close>

definition catchE :: "('e, 's, 'a) exc \<Rightarrow> ('e \<Rightarrow> ('e, 's, 'a) exc) \<Rightarrow> ('e, 's, 'a) exc" where
  "catchE m h = (\<lambda>s. case m s of (Inl e, s') \<Rightarrow> h e s' | (Inr a, s') \<Rightarrow> (Inr a, s'))"

definition modifyE :: "('s \<Rightarrow> 's) \<Rightarrow> ('e, 's, unit) exc" where
  "modifyE f = (\<lambda>s. (Inr (), f s))"

definition getsE :: "('s \<Rightarrow> 'a) \<Rightarrow> ('e, 's, 'a) exc" where
  "getsE f = (\<lambda>s. (Inr (f s), s))"

text \<open>The character of a decimal digit, and the digit of a character.\<close>

definition digit_char :: "nat \<Rightarrow> char" where
  "digit_char d = char_of (48 + d)"

definition is_dec_digit :: "char \<Rightarrow> bool" where
  "is_dec_digit c \<longleftrightarrow> (48::nat) \<le> of_char c \<and> (of_char c :: nat) \<le> 57"

definition digit_val :: "char \<Rightarrow> nat" where
  "digit_val c = of_char c - 48"

fun show_nat :: "nat \<Rightarrow> string" where
  "show_nat n = (if n < 10 then [digit_char n] else show_nat (n div 10) @ [digit_char (n mod 10)])"

declare show_nat.simps [simp del]

definition zfill :: "nat \<Rightarrow> string \<Rightarrow> string" where
  "zfill k s = replicate (k - length s) (CHR ''0'') @ s"

definition read_nat :: "string \<Rightarrow> nat" where
  "read_nat s = foldl (\<lambda>acc c. 10 * acc + digit_val c) 0 s"

text \<open>
  Exactly \<open>k\<close> decimal digits, most significant first: the shape of a zero-padded
  field whose value fits. It is the normal form the parsing lemmas work with.
\<close>

fun dec_fixed :: "nat \<Rightarrow> nat \<Rightarrow> string" where
  "dec_fixed 0 n = []"
| "dec_fixed (Suc k) n = dec_fixed k (n div 10) @ [digit_char (n mod 10)]"

section \<open>Lemmas\<close>

lemma returnE_apply [simp, exc_simps]: "returnE a s = (Inr a, s)"
  by (simp add: returnE_def)

lemma throwE_apply [simp, exc_simps]: "throwE e s = (Inl e, s)"
  by (simp add: throwE_def)

lemma modifyE_apply [simp, exc_simps]: "modifyE f s = (Inr (), f s)"
  by (simp add: modifyE_def)

lemma getsE_apply [simp, exc_simps]: "getsE f s = (Inr (f s), s)"
  by (simp add: getsE_def)

lemma bindE_apply [exc_simps]:
  "bindE m f s = (case m s of (Inl e, s') \<Rightarrow> (Inl e, s') | (Inr a, s') \<Rightarrow> f a s')"
  by (simp add: bindE_def)

lemma thenE_apply [exc_simps]:
  "thenE m n s = (case m s of (Inl e, s') \<Rightarrow> (Inl e, s') | (Inr a, s') \<Rightarrow> n s')"
  by (simp add: thenE_def bindE_def)

lemma catchE_apply [exc_simps]:
  "catchE m h s = (case m s of (Inl e, s') \<Rightarrow> h e s' | (Inr a, s') \<Rightarrow> (Inr a, s'))"
  by (simp add: catchE_def)

text \<open>The rules a proof uses when the first step's outcome is known.\<close>

lemma bindE_Inr [simp]: "m s = (Inr a, s') \<Longrightarrow> bindE m f s = f a s'"
  by (simp add: bindE_def)

lemma bindE_Inl [simp]: "m s = (Inl e, s') \<Longrightarrow> bindE m f s = (Inl e, s')"
  by (simp add: bindE_def)

lemma thenE_Inr [simp]: "m s = (Inr a, s') \<Longrightarrow> thenE m n s = n s'"
  by (simp add: thenE_def)

lemma thenE_Inl [simp]: "m s = (Inl e, s') \<Longrightarrow> thenE m n s = (Inl e, s')"
  by (simp add: thenE_def)

lemma catchE_Inr [simp]: "m s = (Inr a, s') \<Longrightarrow> catchE m h s = (Inr a, s')"
  by (simp add: catchE_def)

lemma catchE_Inl [simp]: "m s = (Inl e, s') \<Longrightarrow> catchE m h s = h e s'"
  by (simp add: catchE_def)

lemma returnE_bindE [simp]: "bindE (returnE a) f = f a"
  by (simp add: fun_eq_iff bindE_def)

lemma bindE_returnE [simp]: "bindE m returnE = m"
  by (simp add: fun_eq_iff bindE_def split: prod.splits sum.splits)

lemma throwE_bindE [simp]: "bindE (throwE e) f = throwE e"
  by (simp add: fun_eq_iff bindE_def)

lemma bindE_assoc: "bindE (bindE m f) g = bindE m (\<lambda>a. bindE (f a) g)"
  by (simp add: fun_eq_iff bindE_def split: prod.splits sum.splits)

lemma thenE_assoc: "thenE (thenE m n) k = thenE m (thenE n k)"
  by (simp add: thenE_def bindE_assoc)

lemma catchE_returnE [simp]: "catchE (returnE a) h = returnE a"
  by (simp add: fun_eq_iff catchE_def)

lemma catchE_throwE [simp]: "catchE (throwE e) h = h e"
  by (simp add: fun_eq_iff catchE_def)

text \<open>
  A handler that re-raises every exception is no handler: \<^verbatim>\<open>try: m except E as e:
  raise e\<close> is \<open>m\<close>.
\<close>

lemma catchE_throwE_handler [simp]: "catchE m throwE = m"
  by (simp add: fun_eq_iff catchE_def split: prod.splits sum.splits)

lemma digit_char_simps [simp]:
  "digit_char 0 = CHR ''0''" "digit_char (Suc 0) = CHR ''1''" "digit_char 1 = CHR ''1''"
  "digit_char 2 = CHR ''2''" "digit_char 3 = CHR ''3''" "digit_char 4 = CHR ''4''"
  "digit_char 5 = CHR ''5''" "digit_char 6 = CHR ''6''" "digit_char 7 = CHR ''7''"
  "digit_char 8 = CHR ''8''" "digit_char 9 = CHR ''9''"
  by code_simp+

lemma digit_val_digit_char [simp]: "d < 10 \<Longrightarrow> digit_val (digit_char d) = d"
  by (simp add: digit_val_def digit_char_def)

lemma is_dec_digit_digit_char [simp]: "d < 10 \<Longrightarrow> is_dec_digit (digit_char d)"
  by (simp add: is_dec_digit_def digit_char_def)

lemma digit_char_inj [simp]:
  "d < 10 \<Longrightarrow> e < 10 \<Longrightarrow> digit_char d = digit_char e \<longleftrightarrow> d = e"
  by (simp add: digit_char_def)

lemma digit_char_digit_val: "is_dec_digit c \<Longrightarrow> digit_char (digit_val c) = c"
  by (simp add: is_dec_digit_def digit_char_def digit_val_def)

lemma digit_val_less: "is_dec_digit c \<Longrightarrow> digit_val c < 10"
  unfolding is_dec_digit_def digit_val_def by linarith

lemma show_nat_small [simp]: "n < 10 \<Longrightarrow> show_nat n = [digit_char n]"
  by (simp add: show_nat.simps)

lemma show_nat_big: "\<not> n < 10 \<Longrightarrow> show_nat n = show_nat (n div 10) @ [digit_char (n mod 10)]"
  by (simp add: show_nat.simps)

lemma show_nat_digits: "c \<in> set (show_nat n) \<Longrightarrow> is_dec_digit c"
proof (induction n rule: show_nat.induct)
  case (1 n)
  then show ?case
    by (cases "n < 10") (auto simp: show_nat_big)
qed

lemma show_nat_ne [simp]: "show_nat n \<noteq> []"
  by (cases "n < 10") (simp_all add: show_nat_big)

lemma read_nat_snoc: "read_nat (s @ [c]) = 10 * read_nat s + digit_val c"
  by (simp add: read_nat_def)

lemma read_nat_show_nat [simp]: "read_nat (show_nat n) = n"
proof (induction n rule: show_nat.induct)
  case (1 n)
  then show ?case
    by (cases "n < 10") (simp_all add: show_nat_big read_nat_snoc read_nat_def)
qed

lemma read_nat_zeros [simp]: "read_nat (replicate k (CHR ''0'') @ s) = read_nat s"
  by (induction k) (simp_all add: read_nat_def digit_val_def)

lemma read_nat_zfill [simp]: "read_nat (zfill k (show_nat n)) = n"
  by (simp add: zfill_def)

lemma length_show_nat_le: "n < 10 ^ k \<Longrightarrow> 0 < k \<Longrightarrow> length (show_nat n) \<le> k"
proof (induction n arbitrary: k rule: show_nat.induct)
  case (1 n)
  show ?case
  proof (cases "n < 10")
    case True
    with "1.prems" show ?thesis by simp
  next
    case False
    with "1.prems" obtain k' where k: "k = Suc k'" and k': "0 < k'"
      by (cases k; cases "k - 1") auto
    with "1.prems" have "n div 10 < 10 ^ k'"
      by (simp add: div_less_iff_less_mult mult.commute)
    with False k' "1.IH" have "length (show_nat (n div 10)) \<le> k'"
      by blast
    with False k show ?thesis by (simp add: show_nat_big)
  qed
qed

lemma length_zfill: "length (zfill k s) = max k (length s)"
  by (simp add: zfill_def)

lemma zfill_digits: "c \<in> set (zfill k (show_nat n)) \<Longrightarrow> is_dec_digit c"
  by (auto simp: zfill_def is_dec_digit_def dest: show_nat_digits)

lemma length_dec_fixed [simp]: "length (dec_fixed k n) = k"
  by (induction k arbitrary: n) simp_all

lemma dec_fixed_digits: "list_all is_dec_digit (dec_fixed k n)"
  by (induction k arbitrary: n) simp_all

lemma dec_fixed_zero: "dec_fixed k 0 = replicate k (CHR ''0'')"
  by (induction k) (simp_all add: replicate_append_same)

lemma read_nat_dec_fixed: "n < 10 ^ k \<Longrightarrow> read_nat (dec_fixed k n) = n"
proof (induction k arbitrary: n)
  case 0
  then show ?case by (simp add: read_nat_def)
next
  case (Suc k)
  then have "n div 10 < 10 ^ k"
    by (simp add: div_less_iff_less_mult mult.commute)
  with Suc.IH show ?case by (simp add: read_nat_snoc)
qed

lemma dec_fixed_read_nat:
  "list_all is_dec_digit xs \<Longrightarrow> dec_fixed (length xs) (read_nat xs) = xs"
proof (induction xs rule: rev_induct)
  case Nil
  then show ?case by simp
next
  case (snoc c xs)
  then have c: "is_dec_digit c" and xs: "list_all is_dec_digit xs" by simp_all
  from c have "(10 * read_nat xs + digit_val c) div 10 = read_nat xs"
    and "(10 * read_nat xs + digit_val c) mod 10 = digit_val c"
    by (simp_all add: digit_val_less)
  with snoc.IH xs c show ?case
    by (simp add: read_nat_snoc digit_char_digit_val)
qed

lemma read_nat_bound: "list_all is_dec_digit xs \<Longrightarrow> read_nat xs < 10 ^ length xs"
proof (induction xs rule: rev_induct)
  case Nil
  then show ?case by (simp add: read_nat_def)
next
  case (snoc c xs)
  then have "read_nat xs < 10 ^ length xs" and "digit_val c < 10"
    by (simp_all add: digit_val_less)
  then show ?case by (simp add: read_nat_snoc)
qed

lemma zfill_show_nat_dec_fixed:
  "n < 10 ^ k \<Longrightarrow> 0 < k \<Longrightarrow> zfill k (show_nat n) = dec_fixed k n"
proof (induction k arbitrary: n)
  case 0
  then show ?case by simp
next
  case (Suc k)
  show ?case
  proof (cases "n < 10")
    case True
    then show ?thesis by (simp add: zfill_def dec_fixed_zero)
  next
    case False
    with Suc.prems have k: "0 < k" by (cases k) auto
    from Suc.prems have "n div 10 < 10 ^ k"
      by (simp add: div_less_iff_less_mult mult.commute)
    with k Suc.IH have IH: "zfill k (show_nat (n div 10)) = dec_fixed k (n div 10)"
      by blast
    have "length (show_nat (n div 10)) \<le> k"
      using \<open>n div 10 < 10 ^ k\<close> k by (rule length_show_nat_le)
    with IH False show ?thesis
      by (simp add: show_nat_big zfill_def Suc_diff_le)
  qed
qed

end
