(* ===== verification/Timestamp.thy ===== *)
theory Timestamp
  imports Prelude "HOL-Library.Product_Lexorder"
begin

text \<open>
  Time stamps of \<^verbatim>\<open>src/pro.py\<close>. The script reads the clock twice with
  \<^verbatim>\<open>datetime.datetime.now()\<close> and formats it with \<^verbatim>\<open>strftime\<close>: once for the
  remote file name \<^verbatim>\<open>backup_<stamp>.zip\<close> (lines 59--60, format
  \<^verbatim>\<open>%Y%m%d_%H%M%S\<close>) and once for the banner (line 137, format
  \<^verbatim>\<open>%Y-%m-%d %H:%M:%S\<close>).

  \<^item> \<open>datetime\<close> is Python's naive \<^verbatim>\<open>datetime\<close> with its seven fields, ordered
    as Python compares datetimes (field by field); \<open>valid_datetime\<close> is the range
    check of Python's constructor (years 1 to 9999, the Gregorian calendar).
  \<^item> \<open>strftime\<close> interprets a format string with the directives the script uses.
    \<^verbatim>\<open>%Y\<close> is printed with at least four digits (zero-padded), as CPython does on
    every platform since 3.14 and glibc does for years from 1000 on; older CPython on
    glibc prints years below 1000 without padding, which \<^verbatim>\<open>now()\<close> never returns on a
    set clock.
  \<^item> \<open>remote_filename\<close> is the name built at lines 59--60, and
    \<open>parse_remote_filename\<close> reads such a name back. The lemmas show that the name
    always has the shape \<^verbatim>\<open>backup_DDDDDDDD_DDDDDD.zip\<close>, that parsing inverts
    printing up to the microseconds the format drops, and hence that two runs started
    in different seconds never produce the same remote name.
\<close>

section \<open>Python's datetime\<close>

datatype datetime = DateTime
  (dt_year: nat) (dt_month: nat) (dt_day: nat)
  (dt_hour: nat) (dt_minute: nat) (dt_second: nat) (dt_microsecond: nat)

definition dt_key :: "datetime \<Rightarrow> nat \<times> nat \<times> nat \<times> nat \<times> nat \<times> nat \<times> nat" where
  "dt_key t = (dt_year t, dt_month t, dt_day t, dt_hour t, dt_minute t, dt_second t,
               dt_microsecond t)"

instantiation datetime :: linorder
begin

definition less_eq_datetime :: "datetime \<Rightarrow> datetime \<Rightarrow> bool" where
  "less_eq_datetime s t \<longleftrightarrow> dt_key s \<le> dt_key t"

definition less_datetime :: "datetime \<Rightarrow> datetime \<Rightarrow> bool" where
  "less_datetime s t \<longleftrightarrow> dt_key s < dt_key t"

instance
proof
  fix s t u :: datetime
  show "s < t \<longleftrightarrow> s \<le> t \<and> \<not> t \<le> s"
    by (simp add: less_eq_datetime_def less_datetime_def less_le_not_le)
  show "s \<le> s" by (simp add: less_eq_datetime_def)
  show "s \<le> t \<Longrightarrow> t \<le> u \<Longrightarrow> s \<le> u"
    by (simp add: less_eq_datetime_def)
  show "s = t" if "s \<le> t" "t \<le> s"
  proof -
    from that have "dt_key s = dt_key t"
      unfolding less_eq_datetime_def by (rule antisym)
    then show "s = t" by (cases s; cases t) (simp add: dt_key_def)
  qed
  show "s \<le> t \<or> t \<le> s"
    by (simp add: less_eq_datetime_def linear)
qed

end

definition is_leap :: "nat \<Rightarrow> bool" where
  "is_leap y \<longleftrightarrow> 4 dvd y \<and> (\<not> 100 dvd y \<or> 400 dvd y)"

definition days_in_month :: "nat \<Rightarrow> nat \<Rightarrow> nat" where
  "days_in_month y m =
     (if m = 2 then (if is_leap y then 29 else 28)
      else if m \<in> {4, 6, 9, 11} then 30 else 31)"

definition valid_datetime :: "datetime \<Rightarrow> bool" where
  "valid_datetime t \<longleftrightarrow>
     1 \<le> dt_year t \<and> dt_year t \<le> 9999 \<and> 1 \<le> dt_month t \<and> dt_month t \<le> 12 \<and>
     1 \<le> dt_day t \<and> dt_day t \<le> days_in_month (dt_year t) (dt_month t) \<and>
     dt_hour t < 24 \<and> dt_minute t < 60 \<and> dt_second t < 60 \<and> dt_microsecond t < 1000000"

text \<open>The instant to the second: what a format without \<^verbatim>\<open>%f\<close> can show.\<close>

definition to_second :: "datetime \<Rightarrow> datetime" where
  "to_second t = DateTime (dt_year t) (dt_month t) (dt_day t) (dt_hour t) (dt_minute t)
                          (dt_second t) 0"

section \<open>strftime\<close>

definition dec_field :: "nat \<Rightarrow> nat \<Rightarrow> string" where
  "dec_field k n = zfill k (show_nat n)"

fun strftime_directive :: "char \<Rightarrow> datetime \<Rightarrow> string" where
  "strftime_directive c t =
     (if c = CHR ''Y'' then dec_field 4 (dt_year t)
      else if c = CHR ''m'' then dec_field 2 (dt_month t)
      else if c = CHR ''d'' then dec_field 2 (dt_day t)
      else if c = CHR ''H'' then dec_field 2 (dt_hour t)
      else if c = CHR ''M'' then dec_field 2 (dt_minute t)
      else if c = CHR ''S'' then dec_field 2 (dt_second t)
      else if c = CHR ''%'' then ''%''
      else [CHR ''%'', c])"

fun strftime :: "string \<Rightarrow> datetime \<Rightarrow> string" where
  "strftime [] t = []"
| "strftime (c # d # fmt) t =
     (if c = CHR ''%'' then strftime_directive d t @ strftime fmt t
      else c # strftime (d # fmt) t)"
| "strftime [c] t = [c]"

section \<open>The remote file name (lines 59--60)\<close>

definition remote_filename :: "datetime \<Rightarrow> string" where
  "remote_filename now = ''backup_'' @ strftime ''%Y%m%d_%H%M%S'' now @ ''.zip''"

definition banner_time :: "datetime \<Rightarrow> string" where
  "banner_time now = strftime ''%Y-%m-%d %H:%M:%S'' now"

text \<open>The parser of remote names: the inverse of \<open>remote_filename\<close> on valid times.\<close>

definition slice :: "nat \<Rightarrow> nat \<Rightarrow> 'a list \<Rightarrow> 'a list" where
  "slice i n xs = take n (drop i xs)"

definition parse_remote_filename :: "string \<Rightarrow> datetime option" where
  "parse_remote_filename s =
     (if length s = 26 \<and> slice 0 7 s = ''backup_'' \<and> slice 15 1 s = ''_'' \<and>
         slice 22 4 s = ''.zip'' \<and>
         list_all is_dec_digit (slice 7 8 s) \<and> list_all is_dec_digit (slice 16 6 s)
      then (let t = DateTime (read_nat (slice 7 4 s)) (read_nat (slice 11 2 s))
                     (read_nat (slice 13 2 s)) (read_nat (slice 16 2 s))
                     (read_nat (slice 18 2 s)) (read_nat (slice 20 2 s)) 0
            in if valid_datetime t then Some t else None)
      else None)"

section \<open>Fixed-width fields and slices\<close>

lemma dt_key_inj: "dt_key s = dt_key t \<Longrightarrow> s = t"
  by (cases s; cases t) (simp add: dt_key_def)

lemma slice_merge: "j = i + a \<Longrightarrow> slice i a xs @ slice j b xs = slice i (a + b) xs"
  by (simp add: slice_def take_add add.commute)

lemma slice_all: "length xs = n \<Longrightarrow> slice 0 n xs = xs"
  by (simp add: slice_def)

lemma slice_slice: "i \<le> j \<Longrightarrow> j + m \<le> i + n \<Longrightarrow> slice (j - i) m (slice i n xs) = slice j m xs"
  by (simp add: slice_def drop_take take_take min_def)

lemma list_all_slice_sub:
  assumes "list_all P (slice i n xs)" "i \<le> j" "j + m \<le> i + n"
  shows "list_all P (slice j m xs)"
proof -
  have "set (slice (j - i) m (slice i n xs)) \<subseteq> set (slice i n xs)"
    by (auto simp: slice_def dest: in_set_takeD in_set_dropD)
  with assms show ?thesis
    by (simp add: slice_slice list_all_iff subset_iff)
qed

lemma days_in_month_le: "days_in_month y m \<le> 31"
  by (simp add: days_in_month_def)

lemma dec_field_fixed: "n < 10 ^ k \<Longrightarrow> 0 < k \<Longrightarrow> dec_field k n = dec_fixed k n"
  by (simp add: dec_field_def zfill_show_nat_dec_fixed)

lemma valid_datetime_bounds:
  assumes "valid_datetime t"
  shows "dt_year t < 10 ^ 4" "dt_month t < 10 ^ 2" "dt_day t < 10 ^ 2"
    "dt_hour t < 10 ^ 2" "dt_minute t < 10 ^ 2" "dt_second t < 10 ^ 2"
  using assms days_in_month_le [of "dt_year t" "dt_month t"]
  by (simp_all add: valid_datetime_def)

lemma strftime_stamp:
  "strftime ''%Y%m%d_%H%M%S'' t =
     dec_field 4 (dt_year t) @ dec_field 2 (dt_month t) @ dec_field 2 (dt_day t) @ ''_'' @
     dec_field 2 (dt_hour t) @ dec_field 2 (dt_minute t) @ dec_field 2 (dt_second t)"
  by simp

lemma remote_filename_fixed:
  assumes "valid_datetime t"
  shows "remote_filename t =
     ''backup_'' @ dec_fixed 4 (dt_year t) @ dec_fixed 2 (dt_month t) @ dec_fixed 2 (dt_day t) @
     ''_'' @ dec_fixed 2 (dt_hour t) @ dec_fixed 2 (dt_minute t) @ dec_fixed 2 (dt_second t) @
     ''.zip''"
  using valid_datetime_bounds [OF assms]
  by (simp add: remote_filename_def strftime_stamp dec_field_fixed del: strftime.simps)

lemma valid_to_second: "valid_datetime t \<Longrightarrow> valid_datetime (to_second t)"
  by (simp add: valid_datetime_def to_second_def)

lemma parse_remote_filename_print:
  assumes "valid_datetime t"
  shows "parse_remote_filename (remote_filename t) = Some (to_second t)"
proof -
  note b = valid_datetime_bounds [OF assms]
  have "valid_datetime (DateTime (dt_year t) (dt_month t) (dt_day t) (dt_hour t) (dt_minute t) (dt_second t) 0)"
    using valid_to_second [OF assms] by (simp add: to_second_def)
  with b show ?thesis
    by (simp add: remote_filename_fixed [OF assms] parse_remote_filename_def slice_def
        dec_fixed_digits read_nat_dec_fixed to_second_def)
qed

lemma length_slice: "i + n \<le> length xs \<Longrightarrow> length (slice i n xs) = n"
  by (simp add: slice_def)

lemma dec_fixed_slice:
  assumes "list_all is_dec_digit (slice j n xs)" "j + n \<le> length xs"
  shows "dec_fixed n (read_nat (slice j n xs)) = slice j n xs"
  using dec_fixed_read_nat [OF assms(1)] length_slice [OF assms(2)] by simp

lemma parse_remote_filename_sound:
  assumes p: "parse_remote_filename s = Some t"
  shows "valid_datetime t \<and> dt_microsecond t = 0 \<and> remote_filename t = s"
proof -
  from p have len: "length s = 26" and pre: "slice 0 7 s = ''backup_''"
    and us: "slice 15 1 s = ''_''" and suf: "slice 22 4 s = ''.zip''"
    and d1: "list_all is_dec_digit (slice 7 8 s)" and d2: "list_all is_dec_digit (slice 16 6 s)"
    and t: "t = DateTime (read_nat (slice 7 4 s)) (read_nat (slice 11 2 s))
                (read_nat (slice 13 2 s)) (read_nat (slice 16 2 s))
                (read_nat (slice 18 2 s)) (read_nat (slice 20 2 s)) 0"
    and v: "valid_datetime t"
    by (auto simp: parse_remote_filename_def Let_def split: if_splits)
  have "s = slice 0 7 s @ slice 7 4 s @ slice 11 2 s @ slice 13 2 s @ slice 15 1 s @
            slice 16 2 s @ slice 18 2 s @ slice 20 2 s @ slice 22 4 s"
    by (simp add: slice_merge slice_all len)
  then have eq: "s = ''backup_'' @ slice 7 4 s @ slice 11 2 s @ slice 13 2 s @ ''_'' @
            slice 16 2 s @ slice 18 2 s @ slice 20 2 s @ ''.zip''"
    unfolding pre us suf .
  have digits: "dec_fixed 4 (read_nat (slice 7 4 s)) = slice 7 4 s"
    "dec_fixed 2 (read_nat (slice 11 2 s)) = slice 11 2 s"
    "dec_fixed 2 (read_nat (slice 13 2 s)) = slice 13 2 s"
    "dec_fixed 2 (read_nat (slice 16 2 s)) = slice 16 2 s"
    "dec_fixed 2 (read_nat (slice 18 2 s)) = slice 18 2 s"
    "dec_fixed 2 (read_nat (slice 20 2 s)) = slice 20 2 s"
    using d1 d2 len by (auto intro!: dec_fixed_slice elim: list_all_slice_sub)
  have "remote_filename t = ''backup_'' @ slice 7 4 s @ slice 11 2 s @ slice 13 2 s @ ''_'' @
            slice 16 2 s @ slice 18 2 s @ slice 20 2 s @ ''.zip''"
    using remote_filename_fixed [OF v] digits by (simp add: t)
  also have "\<dots> = s" by (rule sym [OF eq])
  finally have "remote_filename t = s" .
  with v t show ?thesis by simp
qed


section \<open>Properties of the remote name\<close>

text \<open>
  C8. The remote name always has the shape the spec gives, \<^verbatim>\<open>backup_\<close>, eight
  digits, an underscore, six digits and \<^verbatim>\<open>.zip\<close>: fourteen digits of time stamp,
  for every time \<^verbatim>\<open>datetime.now()\<close> can return.
\<close>

lemma remote_filename_format:
  assumes "valid_datetime t"
  shows "\<exists>ds ts. remote_filename t = ''backup_'' @ ds @ ''_'' @ ts @ ''.zip'' \<and>
           length ds = 8 \<and> length ts = 6 \<and> list_all is_dec_digit ds \<and> list_all is_dec_digit ts"
proof -
  let ?ds = "dec_fixed 4 (dt_year t) @ dec_fixed 2 (dt_month t) @ dec_fixed 2 (dt_day t)"
  let ?ts = "dec_fixed 2 (dt_hour t) @ dec_fixed 2 (dt_minute t) @ dec_fixed 2 (dt_second t)"
  have "remote_filename t = ''backup_'' @ ?ds @ ''_'' @ ?ts @ ''.zip''"
    by (simp add: remote_filename_fixed [OF assms])
  moreover have "length ?ds = 8" "length ?ts = 6" by simp_all
  moreover have "list_all is_dec_digit ?ds" "list_all is_dec_digit ?ts"
    by (simp_all add: dec_fixed_digits)
  ultimately show ?thesis by blast
qed


theorem remote_filename_format_witness:
  "valid_datetime (DateTime 2026 11 9 1 2 3 0) \<and>
   (\<exists>ds ts. remote_filename (DateTime 2026 11 9 1 2 3 0) = ''backup_'' @ ds @ ''_'' @ ts @ ''.zip'' \<and>
      length ds = 8 \<and> length ts = 6 \<and> list_all is_dec_digit ds \<and> list_all is_dec_digit ts)"
proof -
  have v: "valid_datetime (DateTime 2026 11 9 1 2 3 0)"
    by (simp add: valid_datetime_def days_in_month_def)
  show ?thesis using v remote_filename_format [OF v] by blast
qed

text \<open>
  C9. Printing and parsing are inverse: a string parses to a time exactly when it is the
  remote name of that time, the time being valid and to the second.
\<close>

lemma remote_filename_parse_iff:
  "parse_remote_filename s = Some t \<longleftrightarrow>
     valid_datetime t \<and> dt_microsecond t = 0 \<and> remote_filename t = s"
proof
  assume "parse_remote_filename s = Some t"
  then show "valid_datetime t \<and> dt_microsecond t = 0 \<and> remote_filename t = s"
    by (rule parse_remote_filename_sound)
next
  assume a: "valid_datetime t \<and> dt_microsecond t = 0 \<and> remote_filename t = s"
  then have "to_second t = t" by (cases t) (simp add: to_second_def)
  with a parse_remote_filename_print [of t] show "parse_remote_filename s = Some t"
    by simp
qed

theorem remote_filename_parse_iff_witness:
  "parse_remote_filename ''backup_20261109_010203.zip'' = Some (DateTime 2026 11 9 1 2 3 0)"
proof -
  have "remote_filename (DateTime 2026 11 9 1 2 3 0) = ''backup_20261109_010203.zip''"
    by (simp add: remote_filename_def dec_field_def zfill_def show_nat_big)
  moreover have "valid_datetime (DateTime 2026 11 9 1 2 3 0)"
    by (simp add: valid_datetime_def days_in_month_def)
  ultimately show ?thesis
    using remote_filename_parse_iff [of "''backup_20261109_010203.zip''" "DateTime 2026 11 9 1 2 3 0"]
    by simp
qed

text \<open>
  C10. Two runs started in different seconds ship their archives under different remote
  names, and two runs in the same second under the same name.
\<close>

lemma remote_filename_unique:
  assumes "valid_datetime t1" "valid_datetime t2"
  shows "remote_filename t1 = remote_filename t2 \<longleftrightarrow> to_second t1 = to_second t2"
proof
  assume "remote_filename t1 = remote_filename t2"
  then have "parse_remote_filename (remote_filename t1) = parse_remote_filename (remote_filename t2)"
    by simp
  with assms show "to_second t1 = to_second t2"
    by (simp add: parse_remote_filename_print)
next
  assume "to_second t1 = to_second t2"
  then show "remote_filename t1 = remote_filename t2"
    by (simp add: remote_filename_def to_second_def)
qed

theorem remote_filename_unique_witness:
  "remote_filename (DateTime 2026 11 9 1 2 3 0) \<noteq> remote_filename (DateTime 2026 11 9 1 2 4 0)"
proof -
  have "valid_datetime (DateTime 2026 11 9 1 2 3 0)" "valid_datetime (DateTime 2026 11 9 1 2 4 0)"
    by (simp_all add: valid_datetime_def days_in_month_def)
  with remote_filename_unique [of "DateTime 2026 11 9 1 2 3 0" "DateTime 2026 11 9 1 2 4 0"]
  show ?thesis by (simp add: to_second_def)
qed

end
