(* ===== verification/Os_World.thy ===== *)
theory Os_World
  imports Timestamp
begin

text \<open>
  The environment of \<^verbatim>\<open>src/pro.py\<close>: what the Python runtime, the operating system
  and the three external tools (\<^verbatim>\<open>pgrep\<close>, \<^verbatim>\<open>zip\<close>, \<^verbatim>\<open>scp\<close>) do when the
  script calls them. None of this is code of the repository; it is the interface the
  script is written against, modelled from the Python documentation and the tools'
  manual pages, at the level of detail the script's branches depend on.

  \<^item> \<open>exn\<close>: the Python exceptions the calls raise, with the text \<^verbatim>\<open>str(e)\<close> gives.
  \<^item> \<open>world\<close>: the process table (the kernel's process names), the local files (a
    map from path to content), the remote files (a map from host and path), which
    tools are installed and executable, the outcome the environment gives the archiver
    and the copy client (an exit status: disk full, network down, key refused), the
    fault, if any, that \<^verbatim>\<open>unlink\<close> reports, the clock, the host name, the console
    (standard output and error, line by line) and the log of the commands executed.
  \<^item> \<open>py\<close>: a Python statement over the world, the monad of \<open>Prelude\<close> at this
    error and state type; \<open>py_print\<close>, \<open>os_path_exists\<close>, \<open>os_remove\<close>,
    \<open>datetime_now\<close>, \<open>uname_nodename\<close> and \<open>subprocess_run\<close> are the calls.
\<close>

section \<open>Python exceptions\<close>

datatype exn =
    FileNotFoundError string
  | PermissionError string
  | CalledProcessError nat "string list"
  | OSError string
  | IndexError string

abbreviation squote :: string where
  "squote \<equiv> [CHR 0x27]"

definition py_quote :: "string \<Rightarrow> string" where
  "py_quote s = squote @ s @ squote"

fun py_join :: "string \<Rightarrow> string list \<Rightarrow> string" where
  "py_join sep [] = []"
| "py_join sep [x] = x"
| "py_join sep (x # y # zs) = x @ sep @ py_join sep (y # zs)"

definition py_repr_list :: "string list \<Rightarrow> string" where
  "py_repr_list xs = ''['' @ py_join '', '' (map py_quote xs) @ '']''"

text \<open>\<^verbatim>\<open>str(e)\<close> and the class name Python prints on the last line of a traceback.\<close>

fun exn_str :: "exn \<Rightarrow> string" where
  "exn_str (FileNotFoundError f) = ''[Errno 2] No such file or directory: '' @ py_quote f"
| "exn_str (PermissionError f) = ''[Errno 13] Permission denied: '' @ py_quote f"
| "exn_str (CalledProcessError rc cmd) =
     ''Command '' @ py_quote (py_repr_list cmd) @ '' returned non-zero exit status '' @
     show_nat rc @ ''.''"
| "exn_str (OSError m) = m"
| "exn_str (IndexError m) = m"

fun exn_name :: "exn \<Rightarrow> string" where
  "exn_name (FileNotFoundError _) = ''FileNotFoundError''"
| "exn_name (PermissionError _) = ''PermissionError''"
| "exn_name (CalledProcessError _ _) = ''subprocess.CalledProcessError''"
| "exn_name (OSError _) = ''OSError''"
| "exn_name (IndexError _) = ''IndexError''"

section \<open>The world\<close>

text \<open>
  File contents: plain data, or a zip archive whose entries carry their name, the
  password they were encrypted with and their content.
\<close>

datatype content = Blob string | ZipArchive "(string \<times> string \<times> content) list"

datatype binstate = Absent | NoExec | Exec

text \<open>
  Why the operating system may refuse to unlink a file that exists: the directory is not
  writable (\<^verbatim>\<open>EACCES\<close>), the file system is read-only (\<^verbatim>\<open>EROFS\<close>) or the file
  is in use (\<^verbatim>\<open>EBUSY\<close>). \<^verbatim>\<open>ENOENT\<close> is not among them: as in the \<^verbatim>\<open>unlink\<close>
  transition of Isabelle's Unix model, it is raised only for a path that is absent.
\<close>

datatype unlink_fault = UnlinkDenied | UnlinkReadOnly | UnlinkBusy

fun unlink_exn :: "unlink_fault \<Rightarrow> string \<Rightarrow> exn" where
  "unlink_exn UnlinkDenied p = PermissionError p"
| "unlink_exn UnlinkReadOnly p = OSError (''[Errno 30] Read-only file system: '' @ py_quote p)"
| "unlink_exn UnlinkBusy p = OSError (''[Errno 16] Device or resource busy: '' @ py_quote p)"

record world =
  procs :: "string list"
  tools :: "string \<Rightarrow> binstate"
  local_fs :: "string \<Rightarrow> content option"
  remote_fs :: "string \<times> string \<Rightarrow> content option"
  zip_status :: nat
  scp_status :: nat
  tool_output :: "string \<Rightarrow> string list"
  rm_fault :: "unlink_fault option"
  clock :: datetime
  nodename :: string
  console :: "string list"
  cmd_log :: "string list list"

type_synonym 'a py = "(exn, world, 'a) exc"

section \<open>Builtins\<close>

definition py_print :: "string \<Rightarrow> unit py" where
  "py_print msg = modifyE (\<lambda>w. w\<lparr>console := console w @ [msg]\<rparr>)"

definition os_path_exists :: "string \<Rightarrow> bool py" where
  "os_path_exists p = getsE (\<lambda>w. local_fs w p \<noteq> None)"

definition os_remove :: "string \<Rightarrow> unit py" where
  "os_remove p = (\<lambda>w.
     if local_fs w p = None then (Inl (FileNotFoundError p), w)
     else case rm_fault w of
       Some f \<Rightarrow> (Inl (unlink_exn f p), w)
     | None \<Rightarrow> (Inr (), w\<lparr>local_fs := (local_fs w)(p := None)\<rparr>))"

definition datetime_now :: "datetime py" where
  "datetime_now = getsE clock"

definition uname_nodename :: "string py" where
  "uname_nodename = getsE nodename"

section \<open>The external tools\<close>

text \<open>
  \<^verbatim>\<open>pgrep -x NAME\<close> exits 0 when some process is named exactly \<open>NAME\<close> and 1
  otherwise; a malformed command line is status 2. The pattern is taken literally (a
  name without regular-expression metacharacters, as the script's is).
\<close>

fun pgrep_exec :: "string list \<Rightarrow> world \<Rightarrow> nat \<times> world" where
  "pgrep_exec [opt, name] w =
     (if opt = ''-x'' then (if name \<in> set (procs w) then 0 else 1, w) else (2, w))"
| "pgrep_exec _ w = (2, w)"

text \<open>
  \<^verbatim>\<open>zip -e -P PW ARCHIVE FILE\<close> adds \<open>FILE\<close>, encrypted with \<open>PW\<close>, to
  \<open>ARCHIVE\<close>: it creates the archive, or updates an existing one in place (an entry of
  the same name is replaced, others are kept). Exit statuses: 12 nothing to do (the file
  is missing), 3 the existing archive is not a zip file, 16 bad options, and whatever
  failure the environment imposes (\<open>zip_status\<close>), in which case nothing is written.
\<close>

fun zip_update :: "string \<Rightarrow> string \<Rightarrow> content \<Rightarrow> (string \<times> string \<times> content) list \<Rightarrow>
    (string \<times> string \<times> content) list" where
  "zip_update f pw c [] = [(f, pw, c)]"
| "zip_update f pw c ((g, pw', c') # es) =
     (if g = f then (f, pw, c) # es else (g, pw', c') # zip_update f pw c es)"

text \<open>The archive after adding a file to what was at the archive path before.\<close>

fun zip_add :: "string \<Rightarrow> string \<Rightarrow> content \<Rightarrow> content option \<Rightarrow> content" where
  "zip_add f pw c None = ZipArchive [(f, pw, c)]"
| "zip_add f pw c (Some (ZipArchive es)) = ZipArchive (zip_update f pw c es)"
| "zip_add f pw c (Some (Blob b)) = Blob b"

fun zip_readable :: "content option \<Rightarrow> bool" where
  "zip_readable (Some (Blob _)) = False"
| "zip_readable _ = True"

fun zip_exec :: "string list \<Rightarrow> world \<Rightarrow> nat \<times> world" where
  "zip_exec [e, p, pw, archive, file] w =
     (if e \<noteq> ''-e'' \<or> p \<noteq> ''-P'' then (16, w)
      else if zip_status w \<noteq> 0 then (zip_status w, w)
      else case local_fs w file of
        None \<Rightarrow> (12, w)
      | Some c \<Rightarrow>
          (if \<not> zip_readable (local_fs w archive) then (3, w)
           else (0, w\<lparr>local_fs := (local_fs w)(archive \<mapsto> zip_add file pw c (local_fs w archive))\<rparr>)))"
| "zip_exec _ w = (16, w)"

text \<open>
  \<^verbatim>\<open>scp -i KEY -o BatchMode=yes SRC USER@HOST:PATH\<close> copies the local file
  \<open>SRC\<close> to \<open>PATH\<close> on \<open>HOST\<close>. The outcome of authentication and of the
  connection is the environment's \<open>scp_status\<close>; a missing source is status 1.
  Another command line is not used by the script and is status 1 here.
\<close>

definition split_target :: "string \<Rightarrow> (string \<times> string \<times> string) option" where
  "split_target t =
     (if CHR ''@'' \<in> set t \<and> CHR '':'' \<in> set (tl (dropWhile (\<lambda>c. c \<noteq> CHR ''@'') t))
      then let rest = tl (dropWhile (\<lambda>c. c \<noteq> CHR ''@'') t) in
        Some (takeWhile (\<lambda>c. c \<noteq> CHR ''@'') t, takeWhile (\<lambda>c. c \<noteq> CHR '':'') rest,
              tl (dropWhile (\<lambda>c. c \<noteq> CHR '':'') rest))
      else None)"

fun scp_exec :: "string list \<Rightarrow> world \<Rightarrow> nat \<times> world" where
  "scp_exec [i, key, oflag, batch, src, target] w =
     (if i \<noteq> ''-i'' \<or> oflag \<noteq> ''-o'' \<or> batch \<noteq> ''BatchMode=yes'' then (1, w)
      else case split_target target of
        None \<Rightarrow> (1, w)
      | Some (user, host, path) \<Rightarrow>
          (if scp_status w \<noteq> 0 then (scp_status w, w)
           else case local_fs w src of
             None \<Rightarrow> (1, w)
           | Some c \<Rightarrow> (0, w\<lparr>remote_fs := (remote_fs w)((host, path) \<mapsto> c)\<rparr>)))"
| "scp_exec _ w = (1, w)"

definition tool_exec :: "string \<Rightarrow> string list \<Rightarrow> world \<Rightarrow> nat \<times> world" where
  "tool_exec prog args w =
     (if prog = ''pgrep'' then pgrep_exec args w
      else if prog = ''zip'' then zip_exec args w
      else if prog = ''scp'' then scp_exec args w
      else (0, w))"

text \<open>
  \<^verbatim>\<open>subprocess.run(argv, check=check, stdout=R, stderr=R)\<close>: a program that is not
  installed raises \<^verbatim>\<open>FileNotFoundError\<close>, one that cannot be executed
  \<^verbatim>\<open>PermissionError\<close>; otherwise it runs, its output reaches the console unless
  \<open>R\<close> is \<^verbatim>\<open>DEVNULL\<close> (\<open>devnull\<close>), and with \<open>check\<close> a non-zero
  status raises \<^verbatim>\<open>CalledProcessError\<close>. The value is the status.
\<close>

fun subprocess_run :: "string list \<Rightarrow> bool \<Rightarrow> bool \<Rightarrow> nat py" where
  "subprocess_run [] check devnull = throwE (IndexError ''list index out of range'')"
| "subprocess_run (prog # args) check devnull = (\<lambda>w.
     case tools w prog of
       Absent \<Rightarrow> (Inl (FileNotFoundError prog), w)
     | NoExec \<Rightarrow> (Inl (PermissionError prog), w)
     | Exec \<Rightarrow>
         (let (rc, w1) = tool_exec prog args w;
              w2 = w1\<lparr>cmd_log := cmd_log w1 @ [prog # args],
                      console := console w1 @ (if devnull then [] else tool_output w prog)\<rparr>
          in if check \<and> rc \<noteq> 0 then (Inl (CalledProcessError rc (prog # args)), w2)
             else (Inr rc, w2)))"

section \<open>Running a command\<close>

lemma tool_exec_simps [simp]:
  "tool_exec ''pgrep'' args w = pgrep_exec args w"
  "tool_exec ''zip'' args w = zip_exec args w"
  "tool_exec ''scp'' args w = scp_exec args w"
  by (simp_all add: tool_exec_def)

lemma subprocess_run_Exec:
  assumes "argv = p # args" "tools w p = Exec" "tool_exec p args w = (rc, w1)"
  shows "subprocess_run argv check devnull w =
    (if check \<and> rc \<noteq> 0 then Inl (CalledProcessError rc argv) else Inr rc,
     w1\<lparr>cmd_log := cmd_log w1 @ [argv],
        console := console w1 @ (if devnull then [] else tool_output w p)\<rparr>)"
  using assms by (simp add: Let_def)

lemma subprocess_run_Absent:
  "tools w p = Absent \<Longrightarrow> subprocess_run (p # args) check devnull w = (Inl (FileNotFoundError p), w)"
  by simp

lemma subprocess_run_NoExec:
  "tools w p = NoExec \<Longrightarrow> subprocess_run (p # args) check devnull w = (Inl (PermissionError p), w)"
  by simp

end
