(* ===== verification/Config.thy ===== *)
theory Config
  imports Os_World
begin

text \<open>
  The configuration block of \<^verbatim>\<open>src/pro.py\<close> (lines 8--15), kept under the
  source's names, and \<^verbatim>\<open>log_message\<close> (lines 18--21), through which every line the
  script itself prints goes.
\<close>

section \<open>Configuration constants\<close>

definition PROGRAM_TO_CHECK :: string where
  "PROGRAM_TO_CHECK = ''xxxx''"

definition FILE_TO_TRANSFER :: string where
  "FILE_TO_TRANSFER = ''test.txt''"

definition ARCHIVE_FILENAME :: string where
  "ARCHIVE_FILENAME = ''moveme.zip''"

definition REMOTE_USER :: string where
  "REMOTE_USER = ''foo''"

definition REMOTE_HOST :: string where
  "REMOTE_HOST = ''172.168.1.100''"

definition REMOTE_PATH :: string where
  "REMOTE_PATH = ''/home/me/Desktop/monitor/rec/''"

definition SSH_KEY_PATH :: string where
  "SSH_KEY_PATH = ''/home/me/.ssh/id_rsa''"

definition ENCRYPTION_PASSWORD :: string where
  "ENCRYPTION_PASSWORD = ''STRONG_PASSWORD''"

section \<open>log_message\<close>

definition log_message :: "string \<Rightarrow> bool \<Rightarrow> unit py" where
  "log_message message silent_mode = (if \<not> silent_mode then py_print message else returnE ())"

text \<open>
  \<open>say silent ms w\<close>: the world after the script has logged the lines \<open>ms\<close>, which
  reach the console only outside silent mode.
\<close>

definition say :: "bool \<Rightarrow> string list \<Rightarrow> world \<Rightarrow> world" where
  "say silent ms w = (if silent then w else w\<lparr>console := console w @ ms\<rparr>)"

text \<open>
  A world in which the script has work to do, for the witnesses: the monitored program
  is not running, the source file exists, every tool is installed, the network and the
  remote host accept the copy, and the clock reads 2026-11-09 01:02:03.
\<close>

definition example_world :: world where
  "example_world =
     \<lparr>procs = [''bash'', ''sshd''], tools = (\<lambda>_. Exec),
      local_fs = [''test.txt'' \<mapsto> Blob ''payload''], remote_fs = Map.empty,
      zip_status = 0, scp_status = 0, tool_output = (\<lambda>_. []), rm_fault = None,
      clock = DateTime 2026 11 9 1 2 3 0, nodename = ''monitor'', console = [], cmd_log = []\<rparr>"

section \<open>Lemmas\<close>

lemmas config_defs = PROGRAM_TO_CHECK_def FILE_TO_TRANSFER_def ARCHIVE_FILENAME_def
  REMOTE_USER_def REMOTE_HOST_def REMOTE_PATH_def SSH_KEY_PATH_def ENCRYPTION_PASSWORD_def

text \<open>The two local paths are different files.\<close>

lemma archive_ne_file [simp]: "ARCHIVE_FILENAME \<noteq> FILE_TO_TRANSFER"
  by (simp add: config_defs)

lemma file_ne_archive [simp]: "FILE_TO_TRANSFER \<noteq> ARCHIVE_FILENAME"
  by (simp add: config_defs)

lemma log_message_apply [simp]: "log_message m silent w = (Inr (), say silent [m] w)"
  by (simp add: log_message_def py_print_def say_def)

lemma say_say [simp]: "say silent ms (say silent ns w) = say silent (ns @ ms) w"
  by (simp add: say_def)

lemma say_fields [simp]:
  "local_fs (say silent ms w) = local_fs w" "remote_fs (say silent ms w) = remote_fs w"
  "tools (say silent ms w) = tools w" "procs (say silent ms w) = procs w"
  "zip_status (say silent ms w) = zip_status w" "scp_status (say silent ms w) = scp_status w"
  "tool_output (say silent ms w) = tool_output w" "rm_fault (say silent ms w) = rm_fault w"
  "clock (say silent ms w) = clock w" "nodename (say silent ms w) = nodename w"
  "cmd_log (say silent ms w) = cmd_log w"
  by (simp_all add: say_def)

lemma console_say: "console (say silent ms w) = console w @ (if silent then [] else ms)"
  by (simp add: say_def)

lemma say_silent [simp]: "say True ms w = w"
  by (simp add: say_def)

end
