(* ===== verification/Process_Check.thy ===== *)
theory Process_Check
  imports Config
begin

text \<open>
  \<^verbatim>\<open>check_process_running\<close> (\<^verbatim>\<open>src/pro.py\<close>, lines 23--44): log which program
  is checked, run \<^verbatim>\<open>pgrep -x\<close> with its output discarded, and answer whether it
  exited 0. A missing \<^verbatim>\<open>pgrep\<close> and every other exception are caught, logged and
  answered with \<open>False\<close>: the check never raises.
\<close>

definition check_process_running :: "string \<Rightarrow> bool \<Rightarrow> bool py" where
  "check_process_running program_name silent_mode =
     thenE (log_message (''Checking status for program: '' @ py_quote program_name @ ''...'')
              silent_mode)
       (catchE
          (bindE (subprocess_run [''pgrep'', ''-x'', program_name] False True)
             (\<lambda>returncode. returnE (returncode = 0)))
          (\<lambda>e. case e of
             FileNotFoundError _ \<Rightarrow>
               thenE (log_message (''Error: '' @ py_quote ''pgrep'' @
                        '' utility not found. Cannot check process status.'') silent_mode)
                 (returnE False)
           | _ \<Rightarrow>
               thenE (log_message (''An unexpected error occurred during process check: '' @
                        exn_str e) silent_mode)
                 (returnE False)))"

definition check_msg :: "string \<Rightarrow> string" where
  "check_msg n = ''Checking status for program: '' @ py_quote n @ ''...''"

section \<open>Behaviour on each state of the pgrep binary\<close>

lemma check_process_running_Exec:
  "tools w ''pgrep'' = Exec \<Longrightarrow>
   check_process_running n silent w =
     (Inr (n \<in> set (procs w)),
      (say silent [check_msg n] w)\<lparr>cmd_log := cmd_log w @ [[''pgrep'', ''-x'', n]]\<rparr>)"
  by (simp add: check_process_running_def check_msg_def say_def tool_exec_def exc_simps)

lemma check_process_running_Absent:
  "tools w ''pgrep'' = Absent \<Longrightarrow>
   check_process_running n silent w =
     (Inr False, say silent [check_msg n, ''Error: '' @ py_quote ''pgrep'' @
                        '' utility not found. Cannot check process status.''] w)"
  by (simp add: check_process_running_def check_msg_def exc_simps)

lemma check_process_running_NoExec:
  "tools w ''pgrep'' = NoExec \<Longrightarrow>
   check_process_running n silent w =
     (Inr False, say silent [check_msg n, ''An unexpected error occurred during process check: '' @
                        exn_str (PermissionError ''pgrep'')] w)"
  by (simp add: check_process_running_def check_msg_def exc_simps)

lemmas check_process_running_cases =
  check_process_running_Exec check_process_running_Absent check_process_running_NoExec

text \<open>
  The check touches nothing but the console and the command log: the frame every
  caller relies on.
\<close>

lemma check_process_running_frame:
  assumes "check_process_running n silent w = (r, w')"
  shows "w' = w\<lparr>console := console w', cmd_log := cmd_log w'\<rparr>"
  using assms by (cases "tools w ''pgrep''") (auto simp: check_process_running_cases say_def)

text \<open>
  C4. The check never raises, and it answers \<open>True\<close> exactly when \<^verbatim>\<open>pgrep\<close> can
  run and some process carries exactly the given name; a missing or unusable
  \<^verbatim>\<open>pgrep\<close> reads as "not running".
\<close>

theorem check_process_running_result:
  "fst (check_process_running n silent w) = Inr (tools w ''pgrep'' = Exec \<and> n \<in> set (procs w))"
  by (cases "tools w ''pgrep''") (simp_all add: check_process_running_cases)

theorem check_process_running_result_witness:
  "fst (check_process_running PROGRAM_TO_CHECK False example_world) = Inr False"
  using check_process_running_result [of PROGRAM_TO_CHECK False example_world]
  by (simp add: example_world_def config_defs)

end
