(* ===== verification/Transfer_Logic.thy ===== *)
theory Transfer_Logic
  imports Process_Check
begin

text \<open>
  \<^verbatim>\<open>execute_transfer_logic\<close> (\<^verbatim>\<open>src/pro.py\<close>, lines 46--125): the branch taken
  when the monitored program is not running. It checks that the source file exists,
  names the remote copy after the clock, archives and encrypts the file with
  \<^verbatim>\<open>zip\<close> (the first \<^verbatim>\<open>try\<close>, lines 64--90, \<open>archive_step\<close>), then copies
  the archive with \<^verbatim>\<open>scp\<close> and deletes it (the second \<^verbatim>\<open>try\<close>, lines 93--125,
  \<open>transfer_step\<close>). The first \<^verbatim>\<open>try\<close> catches only
  \<^verbatim>\<open>CalledProcessError\<close> and \<^verbatim>\<open>FileNotFoundError\<close>; any other exception of the
  archiver leaves the function. The second catches everything.
\<close>

section \<open>Commands\<close>

definition zip_command :: "string list" where
  "zip_command = [''zip'', ''-e'', ''-P'', ENCRYPTION_PASSWORD, ARCHIVE_FILENAME, FILE_TO_TRANSFER]"

definition remote_target :: "string \<Rightarrow> string" where
  "remote_target remote_name =
     REMOTE_USER @ ''@'' @ REMOTE_HOST @ '':'' @ REMOTE_PATH @ remote_name"

definition scp_command :: "string \<Rightarrow> string list" where
  "scp_command remote_name =
     [''scp'', ''-i'', SSH_KEY_PATH, ''-o'', ''BatchMode=yes'', ARCHIVE_FILENAME,
      remote_target remote_name]"

section \<open>The two try statements\<close>

text \<open>
  The archiving \<^verbatim>\<open>try\<close>: the value says whether the function goes on (\<open>True\<close>) or
  returns from an \<^verbatim>\<open>except\<close> clause (\<open>False\<close>). The tool's output is discarded in
  silent mode (\<^verbatim>\<open>stdout_redirect\<close>, line 74).
\<close>

definition archive_step :: "bool \<Rightarrow> bool py" where
  "archive_step silent_mode =
     catchE
       (thenE (subprocess_run zip_command True silent_mode)
          (thenE (log_message (''SUCCESS: File successfully zipped and encrypted locally as '' @
                    ARCHIVE_FILENAME @ ''.'') silent_mode)
             (returnE True)))
       (\<lambda>e. case e of
          CalledProcessError _ _ \<Rightarrow>
            thenE (log_message (''FAILURE: Could not create or encrypt the ZIP archive. Check if '' @
                     py_quote ''zip'' @ '' is installed.'') silent_mode)
              (returnE False)
        | FileNotFoundError _ \<Rightarrow>
            thenE (log_message (''Error: '' @ py_quote ''zip'' @
                     '' utility not found. Please install the zip package.'') silent_mode)
              (returnE False)
        | _ \<Rightarrow> throwE e)"

definition transfer_step :: "bool \<Rightarrow> string \<Rightarrow> unit py" where
  "transfer_step silent_mode remote_name =
     catchE
       (thenE (log_message (''Attempting SCP transfer of '' @ ARCHIVE_FILENAME @ '' to '' @
                 REMOTE_HOST @ '' as '' @ remote_name @ ''...'') silent_mode)
          (thenE (subprocess_run (scp_command remote_name) True silent_mode)
             (thenE (log_message (''SUCCESS: Encrypted archive transferred successfully and renamed to '' @
                       remote_name @ ''.'') silent_mode)
                (thenE (os_remove ARCHIVE_FILENAME)
                   (log_message (''Cleanup: Local archive '' @ ARCHIVE_FILENAME @ '' removed.'')
                      silent_mode)))))
       (\<lambda>e. case e of
          CalledProcessError _ _ \<Rightarrow>
            thenE (log_message (''FAILURE: SCP transfer failed. Check SSH key path/permissions, '' @
                     ''remote path, and network connection.'') silent_mode)
              (log_message ''The local archive was kept for manual inspection.'' silent_mode)
        | FileNotFoundError _ \<Rightarrow>
            log_message (''Error: '' @ py_quote ''scp'' @
              '' utility not found. Please ensure OpenSSH client is installed.'') silent_mode
        | _ \<Rightarrow>
            log_message (''An unexpected error occurred during transfer/cleanup: '' @ exn_str e)
              silent_mode)"

section \<open>execute\_transfer\_logic\<close>

definition execute_transfer_logic :: "bool \<Rightarrow> unit py" where
  "execute_transfer_logic silent_mode =
     thenE (log_message (''Status: '' @ py_quote PROGRAM_TO_CHECK @
              '' is NOT running (PID not found). Initiating file transfer check...'') silent_mode)
       (bindE (os_path_exists FILE_TO_TRANSFER) (\<lambda>exists.
          if \<not> exists then
            log_message (''WARNING: Local file '' @ py_quote FILE_TO_TRANSFER @
              '' not found. Transfer skipped.'') silent_mode
          else
            thenE (log_message (''Found local file: '' @ FILE_TO_TRANSFER @
                     ''. Preparing encrypted ZIP archive...'') silent_mode)
              (bindE datetime_now (\<lambda>now.
                 let remote_name = remote_filename now in
                 bindE (archive_step silent_mode) (\<lambda>go_on.
                   if go_on then transfer_step silent_mode remote_name else returnE ())))))"

section \<open>Effects of the steps\<close>

text \<open>
  Names for the pieces of world the steps change: \<open>zipped\<close> is the world after the
  archiver wrote the archive, \<open>ran\<close> records an executed command, \<open>shipped\<close> the
  world after the copy reached the remote host.
\<close>

definition zipped :: "world \<Rightarrow> content \<Rightarrow> world" where
  "zipped w c = w\<lparr>local_fs := (local_fs w)(ARCHIVE_FILENAME \<mapsto>
                     zip_add FILE_TO_TRANSFER ENCRYPTION_PASSWORD c (local_fs w ARCHIVE_FILENAME))\<rparr>"

definition ran :: "string list \<Rightarrow> world \<Rightarrow> world" where
  "ran cmd w = w\<lparr>cmd_log := cmd_log w @ [cmd]\<rparr>"

definition zip_fails :: "world \<Rightarrow> bool" where
  "zip_fails w \<longleftrightarrow> zip_status w \<noteq> 0 \<or> local_fs w FILE_TO_TRANSFER = None \<or>
     \<not> zip_readable (local_fs w ARCHIVE_FILENAME)"

definition attempt_msg :: "string \<Rightarrow> string" where
  "attempt_msg rn = ''Attempting SCP transfer of '' @ ARCHIVE_FILENAME @ '' to '' @
                 REMOTE_HOST @ '' as '' @ rn @ ''...''"

definition shipped :: "string \<Rightarrow> content \<Rightarrow> world \<Rightarrow> world" where
  "shipped rn a w = w\<lparr>remote_fs := (remote_fs w)((REMOTE_HOST, REMOTE_PATH @ rn) \<mapsto> a)\<rparr>"

text \<open>What the second \<^verbatim>\<open>except\<close> block prints for each exception.\<close>

fun transfer_error_lines :: "exn \<Rightarrow> string list" where
  "transfer_error_lines (CalledProcessError _ _) =
     [''FAILURE: SCP transfer failed. Check SSH key path/permissions, remote path, and network connection.'',
      ''The local archive was kept for manual inspection.'']"
| "transfer_error_lines (FileNotFoundError _) =
     [''Error: '' @ py_quote ''scp'' @ '' utility not found. Please ensure OpenSSH client is installed.'']"
| "transfer_error_lines e = [''An unexpected error occurred during transfer/cleanup: '' @ exn_str e]"

definition scp_fails :: "world \<Rightarrow> bool" where
  "scp_fails w \<longleftrightarrow> scp_status w \<noteq> 0 \<or> local_fs w ARCHIVE_FILENAME = None"

definition status_msg :: string where
  "status_msg = ''Status: '' @ py_quote PROGRAM_TO_CHECK @
     '' is NOT running (PID not found). Initiating file transfer check...''"

definition found_msg :: string where
  "found_msg = ''Found local file: '' @ FILE_TO_TRANSFER @ ''. Preparing encrypted ZIP archive...''"

definition new_archive :: "world \<Rightarrow> content \<Rightarrow> content" where
  "new_archive w c = zip_add FILE_TO_TRANSFER ENCRYPTION_PASSWORD c (local_fs w ARCHIVE_FILENAME)"

definition scp_ok :: "world \<Rightarrow> bool" where
  "scp_ok w \<longleftrightarrow> tools w ''scp'' = Exec \<and> scp_status w = 0"

section \<open>Each step on each branch\<close>

lemma split_remote_target:
  "split_target (remote_target rn) = Some (REMOTE_USER, REMOTE_HOST, REMOTE_PATH @ rn)"
  by (simp add: split_target_def remote_target_def config_defs)

lemma archive_step_ok:
  assumes "tools w ''zip'' = Exec" "zip_status w = 0" "local_fs w FILE_TO_TRANSFER = Some c"
    "zip_readable (local_fs w ARCHIVE_FILENAME)"
  shows "archive_step s w =
    (Inr True, say s (tool_output w ''zip'' @
        [''SUCCESS: File successfully zipped and encrypted locally as '' @ ARCHIVE_FILENAME @ ''.''])
      (ran zip_command (zipped w c)))"
  using assms
  by (simp add: archive_step_def zip_command_def tool_exec_def zipped_def ran_def say_def exc_simps
      split: if_splits)

lemma zip_exec_fails:
  "zip_fails w \<Longrightarrow> \<exists>rc. zip_exec (tl zip_command) w = (rc, w) \<and> rc \<noteq> 0"
  by (auto simp: zip_fails_def zip_command_def split: option.splits)

lemma archive_step_fail:
  assumes "tools w ''zip'' = Exec" "zip_fails w"
  shows "archive_step s w =
    (Inr False, say s (tool_output w ''zip'' @
        [''FAILURE: Could not create or encrypt the ZIP archive. Check if '' @
         py_quote ''zip'' @ '' is installed.'']) (ran zip_command w))"
proof -
  obtain rc where "zip_exec (tl zip_command) w = (rc, w)" "rc \<noteq> 0"
    using zip_exec_fails [OF assms(2)] by blast
  with assms(1) show ?thesis
    by (simp add: archive_step_def zip_command_def tool_exec_def ran_def say_def exc_simps)
qed

lemma archive_step_Absent:
  "tools w ''zip'' = Absent \<Longrightarrow>
   archive_step s w = (Inr False, say s [''Error: '' @ py_quote ''zip'' @
                        '' utility not found. Please install the zip package.''] w)"
  by (simp add: archive_step_def zip_command_def exc_simps)

lemma archive_step_NoExec:
  "tools w ''zip'' = NoExec \<Longrightarrow> archive_step s w = (Inl (PermissionError ''zip''), w)"
  by (simp add: archive_step_def zip_command_def exc_simps)

lemma transfer_step_ok:
  assumes "tools w ''scp'' = Exec" "scp_status w = 0" "local_fs w ARCHIVE_FILENAME = Some a"
    "rm_fault w = None"
  shows "transfer_step s rn w =
    (Inr (), say s (attempt_msg rn # tool_output w ''scp'' @
        [''SUCCESS: Encrypted archive transferred successfully and renamed to '' @ rn @ ''.'',
         ''Cleanup: Local archive '' @ ARCHIVE_FILENAME @ '' removed.''])
      ((ran (scp_command rn) (shipped rn a w))\<lparr>local_fs := (local_fs w)(ARCHIVE_FILENAME := None)\<rparr>))"
  using assms
  by (simp add: transfer_step_def scp_command_def tool_exec_def split_remote_target [unfolded scp_command_def]
      attempt_msg_def shipped_def ran_def say_def os_remove_def exc_simps)

lemma scp_exec_fails:
  "scp_fails w \<Longrightarrow> \<exists>rc. scp_exec (tl (scp_command rn)) w = (rc, w) \<and> rc \<noteq> 0"
  by (cases "scp_status w = 0")
    (auto simp: scp_fails_def scp_command_def split_remote_target [unfolded scp_command_def])

lemma transfer_step_fail:
  assumes "tools w ''scp'' = Exec" "scp_fails w"
  shows "transfer_step s rn w =
    (Inr (), say s (attempt_msg rn # tool_output w ''scp'' @
        transfer_error_lines (CalledProcessError 1 [])) (ran (scp_command rn) w))"
proof -
  let ?w1 = "say s [attempt_msg rn] w"
  have "scp_fails ?w1" using assms(2) by (simp add: scp_fails_def)
  then obtain rc where rc: "scp_exec (tl (scp_command rn)) ?w1 = (rc, ?w1)" "rc \<noteq> 0"
    using scp_exec_fails by blast
  have cmd: "scp_command rn = ''scp'' # tl (scp_command rn)" by (simp add: scp_command_def)
  have ex: "tools ?w1 ''scp'' = Exec" using assms(1) by simp
  have "tool_exec ''scp'' (tl (scp_command rn)) ?w1 = (rc, ?w1)" using rc(1) by simp
  from subprocess_run_Exec [OF cmd ex this, of True s] rc(2)
  have "subprocess_run (scp_command rn) True s ?w1 =
      (Inl (CalledProcessError rc (scp_command rn)),
       ran (scp_command rn) (say s (tool_output w ''scp'') ?w1))"
    by (simp add: ran_def say_def)
  then show ?thesis
    by (cases s) (simp_all add: transfer_step_def exc_simps attempt_msg_def ran_def say_def)
qed

lemma transfer_step_rm_fault:
  assumes "tools w ''scp'' = Exec" "scp_status w = 0" "local_fs w ARCHIVE_FILENAME = Some a"
    "rm_fault w = Some f"
  shows "transfer_step s rn w =
    (Inr (), say s (attempt_msg rn # tool_output w ''scp'' @
        [''SUCCESS: Encrypted archive transferred successfully and renamed to '' @ rn @ ''.''] @
        transfer_error_lines (unlink_exn f ARCHIVE_FILENAME))
      (ran (scp_command rn) (shipped rn a w)))"
  using assms
  by (cases f) (simp_all add: transfer_step_def scp_command_def tool_exec_def
      split_remote_target [unfolded scp_command_def]
      attempt_msg_def shipped_def ran_def say_def os_remove_def exc_simps)

lemma transfer_step_Absent:
  "tools w ''scp'' = Absent \<Longrightarrow>
   transfer_step s rn w = (Inr (), say s (attempt_msg rn # transfer_error_lines (FileNotFoundError ''scp'')) w)"
  by (simp add: transfer_step_def scp_command_def attempt_msg_def say_def exc_simps)

lemma transfer_step_NoExec:
  "tools w ''scp'' = NoExec \<Longrightarrow>
   transfer_step s rn w = (Inr (), say s (attempt_msg rn # transfer_error_lines (PermissionError ''scp'')) w)"
  by (simp add: transfer_step_def scp_command_def attempt_msg_def say_def exc_simps)

lemma say_commute [simp]:
  "ran cmd (say s ms w) = say s ms (ran cmd w)"
  "zipped (say s ms w) c = say s ms (zipped w c)"
  "shipped rn a (say s ms w) = say s ms (shipped rn a w)"
  by (simp_all add: say_def ran_def zipped_def shipped_def)


lemma execute_transfer_logic_no_file:
  "local_fs w FILE_TO_TRANSFER = None \<Longrightarrow>
   execute_transfer_logic s w =
     (Inr (), say s [status_msg, ''WARNING: Local file '' @ py_quote FILE_TO_TRANSFER @
                     '' not found. Transfer skipped.''] w)"
  by (simp add: execute_transfer_logic_def os_path_exists_def status_msg_def exc_simps)

lemma execute_transfer_logic_archive:
  "local_fs w FILE_TO_TRANSFER = Some c \<Longrightarrow>
   execute_transfer_logic s w =
     bindE (archive_step s) (\<lambda>go_on. if go_on then transfer_step s (remote_filename (clock w)) else returnE ())
       (say s [status_msg, found_msg] w)"
  by (simp add: execute_transfer_logic_def os_path_exists_def datetime_now_def status_msg_def
      found_msg_def exc_simps split: prod.split sum.split)

lemma execute_transfer_logic_zip_ok:
  assumes "local_fs w FILE_TO_TRANSFER = Some c" "tools w ''zip'' = Exec" "zip_status w = 0"
    "zip_readable (local_fs w ARCHIVE_FILENAME)"
  shows "execute_transfer_logic s w =
     transfer_step s (remote_filename (clock w))
       (say s ([status_msg, found_msg] @ tool_output w ''zip'' @
           [''SUCCESS: File successfully zipped and encrypted locally as '' @ ARCHIVE_FILENAME @ ''.''])
         (ran zip_command (zipped w c)))"
proof -
  have "archive_step s (say s [status_msg, found_msg] w) =
    (Inr True, say s (tool_output w ''zip'' @
        [''SUCCESS: File successfully zipped and encrypted locally as '' @ ARCHIVE_FILENAME @ ''.''])
      (ran zip_command (zipped (say s [status_msg, found_msg] w) c)))"
    using assms archive_step_ok [of "say s [status_msg, found_msg] w" c s] by simp
  with assms(1) show ?thesis
    by (simp add: execute_transfer_logic_archive exc_simps)
qed

lemma execute_transfer_logic_zip_fail:
  assumes "local_fs w FILE_TO_TRANSFER = Some c" "tools w ''zip'' = Exec" "zip_fails w"
  shows "execute_transfer_logic s w =
     (Inr (), say s ([status_msg, found_msg] @ tool_output w ''zip'' @
        [''FAILURE: Could not create or encrypt the ZIP archive. Check if '' @
         py_quote ''zip'' @ '' is installed.'']) (ran zip_command w))"
proof -
  have "archive_step s (say s [status_msg, found_msg] w) =
    (Inr False, say s (tool_output w ''zip'' @
        [''FAILURE: Could not create or encrypt the ZIP archive. Check if '' @
         py_quote ''zip'' @ '' is installed.'']) (ran zip_command (say s [status_msg, found_msg] w)))"
    using assms archive_step_fail [of "say s [status_msg, found_msg] w" s] by (simp add: zip_fails_def)
  with assms(1) show ?thesis
    by (simp add: execute_transfer_logic_archive exc_simps)
qed

lemma execute_transfer_logic_zip_Absent:
  assumes "local_fs w FILE_TO_TRANSFER = Some c" "tools w ''zip'' = Absent"
  shows "execute_transfer_logic s w =
     (Inr (), say s [status_msg, found_msg, ''Error: '' @ py_quote ''zip'' @
                        '' utility not found. Please install the zip package.''] w)"
  using assms by (simp add: execute_transfer_logic_archive archive_step_Absent exc_simps)

lemma execute_transfer_logic_zip_NoExec:
  assumes "local_fs w FILE_TO_TRANSFER = Some c" "tools w ''zip'' = NoExec"
  shows "execute_transfer_logic s w = (Inl (PermissionError ''zip''), say s [status_msg, found_msg] w)"
  using assms by (simp add: execute_transfer_logic_archive archive_step_NoExec exc_simps)

lemma step_fields [simp]:
  "local_fs (ran cmd w) = local_fs w" "remote_fs (ran cmd w) = remote_fs w"
  "cmd_log (ran cmd w) = cmd_log w @ [cmd]" "console (ran cmd w) = console w"
  "local_fs (zipped w c) = (local_fs w)(ARCHIVE_FILENAME \<mapsto>
      zip_add FILE_TO_TRANSFER ENCRYPTION_PASSWORD c (local_fs w ARCHIVE_FILENAME))"
  "remote_fs (zipped w c) = remote_fs w" "cmd_log (zipped w c) = cmd_log w"
  "console (zipped w c) = console w"
  "local_fs (shipped rn a w) = local_fs w"
  "remote_fs (shipped rn a w) = (remote_fs w)((REMOTE_HOST, REMOTE_PATH @ rn) \<mapsto> a)"
  "cmd_log (shipped rn a w) = cmd_log w" "console (shipped rn a w) = console w"
  by (simp_all add: ran_def zipped_def shipped_def)

lemma step_frame [simp]:
  "tools (ran cmd w) = tools w" "scp_status (ran cmd w) = scp_status w"
  "rm_fault (ran cmd w) = rm_fault w" "tool_output (ran cmd w) = tool_output w"
  "tools (zipped w c) = tools w" "scp_status (zipped w c) = scp_status w"
  "rm_fault (zipped w c) = rm_fault w" "tool_output (zipped w c) = tool_output w"
  by (simp_all add: ran_def zipped_def)

lemma transfer_step_effects:
  assumes "local_fs w ARCHIVE_FILENAME = Some a"
  shows "fst (transfer_step s rn w) = Inr () \<and>
    local_fs (snd (transfer_step s rn w)) =
      (if scp_ok w \<and> rm_fault w = None then (local_fs w)(ARCHIVE_FILENAME := None) else local_fs w) \<and>
    remote_fs (snd (transfer_step s rn w)) =
      (if scp_ok w then (remote_fs w)((REMOTE_HOST, REMOTE_PATH @ rn) \<mapsto> a) else remote_fs w) \<and>
    cmd_log (snd (transfer_step s rn w)) =
      cmd_log w @ (if tools w ''scp'' = Exec then [scp_command rn] else []) \<and>
    (s \<longrightarrow> console (snd (transfer_step s rn w)) = console w)"
proof (cases "tools w ''scp''")
  case Exec
  show ?thesis
  proof (cases "scp_status w = 0")
    case True
    with Exec assms show ?thesis
      by (cases "rm_fault w") (simp_all add: transfer_step_ok transfer_step_rm_fault scp_ok_def)
  next
    case False
    then have "scp_fails w" by (simp add: scp_fails_def)
    with Exec False show ?thesis by (simp add: transfer_step_fail scp_ok_def)
  qed
qed (simp_all add: transfer_step_Absent transfer_step_NoExec scp_ok_def)

lemma transfer_step_console: "\<exists>ms. console (snd (transfer_step s rn w)) = console w @ ms"
proof (cases "tools w ''scp''")
  case Exec
  show ?thesis
  proof (cases "scp_fails w")
    case True
    with Exec show ?thesis by (auto simp: transfer_step_fail console_say)
  next
    case False
    then obtain a where a: "local_fs w ARCHIVE_FILENAME = Some a" and st: "scp_status w = 0"
      by (auto simp: scp_fails_def)
    with Exec show ?thesis
      by (cases "rm_fault w") (auto simp: transfer_step_ok transfer_step_rm_fault console_say)
  qed
qed (auto simp: transfer_step_Absent transfer_step_NoExec console_say)

lemma example_world_facts:
  "local_fs example_world FILE_TO_TRANSFER = Some (Blob ''payload'')"
  "local_fs example_world ARCHIVE_FILENAME = None"
  "tools example_world p = Exec" "zip_status example_world = 0" "scp_status example_world = 0"
  "rm_fault example_world = None" "PROGRAM_TO_CHECK \<notin> set (procs example_world)"
  "clock example_world = DateTime 2026 11 9 1 2 3 0"
  by (simp_all add: example_world_def config_defs)

section \<open>The archive and its copy\<close>

text \<open>
  C5. Once the archive has been written, the run deletes it exactly when the copy
  succeeded and the unlink did too: a failed or impossible copy always leaves the
  archive in place, and a successful copy is followed by the deletion unless the
  operating system refuses it.
\<close>

theorem archive_removed_iff:
  assumes "local_fs w FILE_TO_TRANSFER = Some c" "tools w ''zip'' = Exec" "zip_status w = 0"
    "zip_readable (local_fs w ARCHIVE_FILENAME)"
  shows "local_fs (snd (execute_transfer_logic s w)) ARCHIVE_FILENAME = None \<longleftrightarrow>
     tools w ''scp'' = Exec \<and> scp_status w = 0 \<and> rm_fault w = None"
  using assms transfer_step_effects [of "say s _ (ran zip_command (zipped w c))"]
  by (simp add: execute_transfer_logic_zip_ok scp_ok_def)

theorem archive_removed_iff_witness:
  "local_fs example_world FILE_TO_TRANSFER = Some (Blob ''payload'') \<and>
   tools example_world ''zip'' = Exec \<and> zip_status example_world = 0 \<and>
   zip_readable (local_fs example_world ARCHIVE_FILENAME) \<and>
   local_fs (snd (execute_transfer_logic False example_world)) ARCHIVE_FILENAME = None"
  using archive_removed_iff [of example_world "Blob ''payload''" False]
  by (simp add: example_world_facts)

text \<open>
  C6. The archive the run writes is never lost: at the end it is still at
  \<^verbatim>\<open>ARCHIVE_FILENAME\<close>, or it is gone from there and the remote host holds it under
  the time-stamped name.
\<close>

theorem archive_never_lost:
  assumes "local_fs w FILE_TO_TRANSFER = Some c" "tools w ''zip'' = Exec" "zip_status w = 0"
    "zip_readable (local_fs w ARCHIVE_FILENAME)"
  shows "local_fs (snd (execute_transfer_logic s w)) ARCHIVE_FILENAME = Some (new_archive w c) \<or>
     (local_fs (snd (execute_transfer_logic s w)) ARCHIVE_FILENAME = None \<and>
      remote_fs (snd (execute_transfer_logic s w)) (REMOTE_HOST, REMOTE_PATH @ remote_filename (clock w)) =
        Some (new_archive w c))"
  using assms transfer_step_effects [of "say s _ (ran zip_command (zipped w c))"]
  by (simp add: execute_transfer_logic_zip_ok new_archive_def)

theorem archive_never_lost_witness:
  "local_fs (example_world\<lparr>scp_status := 1\<rparr>) FILE_TO_TRANSFER = Some (Blob ''payload'') \<and>
   tools (example_world\<lparr>scp_status := 1\<rparr>) ''zip'' = Exec \<and>
   zip_status (example_world\<lparr>scp_status := 1\<rparr>) = 0 \<and>
   zip_readable (local_fs (example_world\<lparr>scp_status := 1\<rparr>) ARCHIVE_FILENAME) \<and>
   (local_fs (snd (execute_transfer_logic False (example_world\<lparr>scp_status := 1\<rparr>))) ARCHIVE_FILENAME =
      Some (new_archive (example_world\<lparr>scp_status := 1\<rparr>) (Blob ''payload'')) \<or>
    (local_fs (snd (execute_transfer_logic False (example_world\<lparr>scp_status := 1\<rparr>))) ARCHIVE_FILENAME = None \<and>
     remote_fs (snd (execute_transfer_logic False (example_world\<lparr>scp_status := 1\<rparr>)))
       (REMOTE_HOST, REMOTE_PATH @ remote_filename (clock (example_world\<lparr>scp_status := 1\<rparr>))) =
       Some (new_archive (example_world\<lparr>scp_status := 1\<rparr>) (Blob ''payload''))))"
  using archive_never_lost [of "example_world\<lparr>scp_status := 1\<rparr>" "Blob ''payload''" False]
  by (simp add: example_world_facts)

text \<open>
  C7. When the archive cannot be written (no source file, no usable archiver, or the
  archiver fails), neither the local archive path nor the remote host is touched, even
  on the path where the archiver's \<^verbatim>\<open>PermissionError\<close> escapes the function.
\<close>

theorem archive_untouched_unless_zipped:
  assumes "\<not> (local_fs w FILE_TO_TRANSFER \<noteq> None \<and> tools w ''zip'' = Exec \<and> zip_status w = 0 \<and>
              zip_readable (local_fs w ARCHIVE_FILENAME))"
  shows "local_fs (snd (execute_transfer_logic s w)) = local_fs w \<and>
     remote_fs (snd (execute_transfer_logic s w)) = remote_fs w"
proof (cases "local_fs w FILE_TO_TRANSFER")
  case None
  then show ?thesis by (simp add: execute_transfer_logic_no_file)
next
  case (Some c)
  show ?thesis
  proof (cases "tools w ''zip''")
    case Exec
    with assms Some have "zip_fails w" by (simp add: zip_fails_def)
    with Some Exec show ?thesis by (simp add: execute_transfer_logic_zip_fail)
  qed (use Some in \<open>simp_all add: execute_transfer_logic_zip_Absent execute_transfer_logic_zip_NoExec\<close>)
qed

theorem archive_untouched_unless_zipped_witness:
  "\<not> (local_fs (example_world\<lparr>local_fs := Map.empty\<rparr>) FILE_TO_TRANSFER \<noteq> None \<and>
       tools (example_world\<lparr>local_fs := Map.empty\<rparr>) ''zip'' = Exec \<and>
       zip_status (example_world\<lparr>local_fs := Map.empty\<rparr>) = 0 \<and>
       zip_readable (local_fs (example_world\<lparr>local_fs := Map.empty\<rparr>) ARCHIVE_FILENAME)) \<and>
   remote_fs (snd (execute_transfer_logic False (example_world\<lparr>local_fs := Map.empty\<rparr>))) = Map.empty"
  using archive_untouched_unless_zipped [of "example_world\<lparr>local_fs := Map.empty\<rparr>" False]
  by (simp add: example_world_def)

end
