(* ===== verification/Script.thy ===== *)
theory Script
  imports Transfer_Logic
begin

text \<open>
  \<^verbatim>\<open>main\<close> (\<^verbatim>\<open>src/pro.py\<close>, lines 128--147) and the interpreter's handling of
  the module's entry point (lines 149--150). \<^verbatim>\<open>main\<close> prints a banner with the time
  and the host name, checks the process, runs the transfer when it is not running, and
  prints a footer. Its parameter is \<^verbatim>\<open>args.silent\<close>: \<^verbatim>\<open>argparse\<close> (lines
  130--134) is a library the script only calls and is not modelled.

  \<open>run_script\<close> is what the interpreter does with \<^verbatim>\<open>main()\<close>: exit status 0 when it
  returns, and when an exception escapes, a traceback on standard error and status 1.
  The traceback is modelled by its first and last lines.
\<close>

section \<open>main\<close>

definition banner_rule :: string where
  "banner_rule = replicate 42 (CHR ''='')"

definition banner_sep :: string where
  "banner_sep = replicate 42 (CHR ''-'')"

definition main :: "bool \<Rightarrow> unit py" where
  "main silent_mode =
     thenE (log_message banner_rule silent_mode)
     (thenE (bindE datetime_now (\<lambda>now.
               log_message (''Date/Time: '' @ strftime ''%Y-%m-%d %H:%M:%S'' now) silent_mode))
     (thenE (bindE uname_nodename (\<lambda>node. log_message (''Hostname: '' @ node) silent_mode))
     (thenE (log_message banner_sep silent_mode)
     (thenE (bindE (check_process_running PROGRAM_TO_CHECK silent_mode) (\<lambda>running.
               if running then
                 log_message (''Status: '' @ py_quote PROGRAM_TO_CHECK @
                   '' is running. No transfer initiated.'') silent_mode
               else execute_transfer_logic silent_mode))
     (thenE (log_message banner_rule silent_mode)
       (log_message ''Done.'' silent_mode))))))"

section \<open>The entry point\<close>

definition traceback :: "exn \<Rightarrow> string list" where
  "traceback e = [''Traceback (most recent call last):'', exn_name e @ '': '' @ exn_str e]"

definition run_script :: "bool \<Rightarrow> world \<Rightarrow> nat \<times> world" where
  "run_script silent_mode w =
     (case main silent_mode w of
        (Inr _, w') \<Rightarrow> (0, w')
      | (Inl e, w') \<Rightarrow> (1, w'\<lparr>console := console w' @ traceback e\<rparr>))"

section \<open>Paths through the script\<close>

text \<open>
  Names for the worlds and messages of the lemmas: \<open>banner_lines\<close> is the banner
  \<^verbatim>\<open>main\<close> prints first, \<open>gate_world\<close> the world after the banner and the
  process check, \<open>after_zip\<close> the world after a successful archiving step, and
  \<open>path_of\<close> classifies a world by the path the script takes through its branches.
\<close>

definition banner_lines :: "world \<Rightarrow> string list" where
  "banner_lines w = [banner_rule, ''Date/Time: '' @ banner_time (clock w), ''Hostname: '' @ nodename w,
                     banner_sep]"

definition running_msg :: string where
  "running_msg = ''Status: '' @ py_quote PROGRAM_TO_CHECK @ '' is running. No transfer initiated.''"

definition finish :: "bool \<Rightarrow> (exn + unit) \<times> world \<Rightarrow> (exn + unit) \<times> world" where
  "finish s r = (case r of (Inl e, w) \<Rightarrow> (Inl e, w) | (Inr _, w) \<Rightarrow> (Inr (), say s [banner_rule, ''Done.''] w))"

definition running :: "world \<Rightarrow> bool" where
  "running w \<longleftrightarrow> tools w ''pgrep'' = Exec \<and> PROGRAM_TO_CHECK \<in> set (procs w)"

definition gate_world :: "bool \<Rightarrow> world \<Rightarrow> world" where
  "gate_world s w = snd (check_process_running PROGRAM_TO_CHECK s (say s (banner_lines w) w))"

definition after_zip :: "bool \<Rightarrow> world \<Rightarrow> content \<Rightarrow> world" where
  "after_zip s w c = say s ([status_msg, found_msg] @ tool_output w ''zip'' @
           [''SUCCESS: File successfully zipped and encrypted locally as '' @ ARCHIVE_FILENAME @ ''.''])
         (ran zip_command (zipped (gate_world s w) c))"

datatype path = Running | NoFile | ZipMissing | ZipCrash | ZipFailed | Zipped content

definition path_of :: "world \<Rightarrow> path" where
  "path_of w =
     (if running w then Running
      else case local_fs w FILE_TO_TRANSFER of
        None \<Rightarrow> NoFile
      | Some c \<Rightarrow> (case tools w ''zip'' of
          Absent \<Rightarrow> ZipMissing
        | NoExec \<Rightarrow> ZipCrash
        | Exec \<Rightarrow> if zip_fails w then ZipFailed else Zipped c))"

section \<open>The script on each path\<close>

lemma main_gate:
  "main s w =
     (let w1 = say s (banner_lines w) w in
      case check_process_running PROGRAM_TO_CHECK s w1 of
        (Inl e, w2) \<Rightarrow> (Inl e, w2)
      | (Inr r, w2) \<Rightarrow>
          if r then (Inr (), say s [running_msg, banner_rule, ''Done.''] w2)
          else (case execute_transfer_logic s w2 of
                  (Inl e, w3) \<Rightarrow> (Inl e, w3)
                | (Inr _, w3) \<Rightarrow> (Inr (), say s [banner_rule, ''Done.''] w3)))"
  by (simp add: main_def banner_lines_def running_msg_def banner_time_def datetime_now_def
      uname_nodename_def exc_simps split: prod.split sum.split)

lemma gate_result:
  "check_process_running PROGRAM_TO_CHECK s (say s (banner_lines w) w) = (Inr (running w), gate_world s w)"
  using check_process_running_result [of PROGRAM_TO_CHECK s "say s (banner_lines w) w"]
  by (simp add: gate_world_def running_def prod_eq_iff)

lemma gate_world_fields [simp]:
  "local_fs (gate_world s w) = local_fs w" "remote_fs (gate_world s w) = remote_fs w"
  "tools (gate_world s w) = tools w" "procs (gate_world s w) = procs w"
  "zip_status (gate_world s w) = zip_status w" "scp_status (gate_world s w) = scp_status w"
  "tool_output (gate_world s w) = tool_output w" "rm_fault (gate_world s w) = rm_fault w"
  "clock (gate_world s w) = clock w" "nodename (gate_world s w) = nodename w"
proof -
  obtain r w' where eq: "check_process_running PROGRAM_TO_CHECK s (say s (banner_lines w) w) = (r, w')"
    by fastforce
  then have "w' = (say s (banner_lines w) w)\<lparr>console := console w', cmd_log := cmd_log w'\<rparr>"
    by (rule check_process_running_frame)
  with eq have gw: "gate_world s w =
      (say s (banner_lines w) w)\<lparr>console := console w', cmd_log := cmd_log w'\<rparr>"
    by (simp add: gate_world_def)
  show "local_fs (gate_world s w) = local_fs w" "remote_fs (gate_world s w) = remote_fs w"
    "tools (gate_world s w) = tools w" "procs (gate_world s w) = procs w"
    "zip_status (gate_world s w) = zip_status w" "scp_status (gate_world s w) = scp_status w"
    "tool_output (gate_world s w) = tool_output w" "rm_fault (gate_world s w) = rm_fault w"
    "clock (gate_world s w) = clock w" "nodename (gate_world s w) = nodename w"
    by (simp_all add: gw)
qed

lemma main_running:
  "running w \<Longrightarrow> main s w = (Inr (), say s [running_msg, banner_rule, ''Done.''] (gate_world s w))"
  by (simp add: main_gate gate_result)

lemma run_script_main: "run_script s w = (case main s w of (Inr _, w') \<Rightarrow> (0, w')
      | (Inl e, w') \<Rightarrow> (1, w'\<lparr>console := console w' @ traceback e\<rparr>))"
  by (simp add: run_script_def)

lemma run_running:
  "running w \<Longrightarrow> run_script s w = (0, say s [running_msg, banner_rule, ''Done.''] (gate_world s w))"
  by (simp add: run_script_main main_gate gate_result)

lemma run_no_file:
  "\<not> running w \<Longrightarrow> local_fs w FILE_TO_TRANSFER = None \<Longrightarrow>
   run_script s w = (0, say s [status_msg, ''WARNING: Local file '' @ py_quote FILE_TO_TRANSFER @
                     '' not found. Transfer skipped.'', banner_rule, ''Done.''] (gate_world s w))"
  by (simp add: run_script_main main_gate gate_result execute_transfer_logic_no_file)

lemma run_zip_Absent:
  "\<not> running w \<Longrightarrow> local_fs w FILE_TO_TRANSFER = Some c \<Longrightarrow> tools w ''zip'' = Absent \<Longrightarrow>
   run_script s w = (0, say s [status_msg, found_msg, ''Error: '' @ py_quote ''zip'' @
      '' utility not found. Please install the zip package.'', banner_rule, ''Done.''] (gate_world s w))"
  by (simp add: run_script_main main_gate gate_result execute_transfer_logic_zip_Absent)

lemma run_zip_NoExec:
  "\<not> running w \<Longrightarrow> local_fs w FILE_TO_TRANSFER = Some c \<Longrightarrow> tools w ''zip'' = NoExec \<Longrightarrow>
   run_script s w = (1, (say s [status_msg, found_msg] (gate_world s w))\<lparr>console :=
      console (say s [status_msg, found_msg] (gate_world s w)) @ traceback (PermissionError ''zip'')\<rparr>)"
  by (simp add: run_script_main main_gate gate_result execute_transfer_logic_zip_NoExec)

lemma run_zip_fail:
  "\<not> running w \<Longrightarrow> local_fs w FILE_TO_TRANSFER = Some c \<Longrightarrow> tools w ''zip'' = Exec \<Longrightarrow>
   zip_fails w \<Longrightarrow>
   run_script s w = (0, say s ([status_msg, found_msg] @ tool_output w ''zip'' @
        [''FAILURE: Could not create or encrypt the ZIP archive. Check if '' @
         py_quote ''zip'' @ '' is installed.'', banner_rule, ''Done.'']) (ran zip_command (gate_world s w)))"
  using execute_transfer_logic_zip_fail [of "gate_world s w" c s]
  by (simp add: run_script_main main_gate gate_result zip_fails_def)

lemma run_zip_ok:
  assumes "\<not> running w" "local_fs w FILE_TO_TRANSFER = Some c" "tools w ''zip'' = Exec"
    "zip_status w = 0" "zip_readable (local_fs w ARCHIVE_FILENAME)"
  shows "run_script s w =
    (0, say s [banner_rule, ''Done.''] (snd (transfer_step s (remote_filename (clock w)) (after_zip s w c))))"
proof -
  have "local_fs (after_zip s w c) ARCHIVE_FILENAME = Some (new_archive w c)"
    by (simp add: after_zip_def new_archive_def)
  then have "fst (transfer_step s (remote_filename (clock w)) (after_zip s w c)) = Inr ()"
    using transfer_step_effects by blast
  then obtain w3 where t: "transfer_step s (remote_filename (clock w)) (after_zip s w c) = (Inr (), w3)"
    by (cases "transfer_step s (remote_filename (clock w)) (after_zip s w c)") simp
  with assms execute_transfer_logic_zip_ok [of "gate_world s w" c s] show ?thesis
    by (simp add: run_script_main main_gate gate_result after_zip_def)
qed

lemma run_script_path:
  "run_script s w =
     (case path_of w of
        Running \<Rightarrow> (0, say s [running_msg, banner_rule, ''Done.''] (gate_world s w))
      | NoFile \<Rightarrow> (0, say s [status_msg, ''WARNING: Local file '' @ py_quote FILE_TO_TRANSFER @
                     '' not found. Transfer skipped.'', banner_rule, ''Done.''] (gate_world s w))
      | ZipMissing \<Rightarrow> (0, say s [status_msg, found_msg, ''Error: '' @ py_quote ''zip'' @
          '' utility not found. Please install the zip package.'', banner_rule, ''Done.''] (gate_world s w))
      | ZipCrash \<Rightarrow> (1, (say s [status_msg, found_msg] (gate_world s w))\<lparr>console :=
          console (say s [status_msg, found_msg] (gate_world s w)) @ traceback (PermissionError ''zip'')\<rparr>)
      | ZipFailed \<Rightarrow> (0, say s ([status_msg, found_msg] @ tool_output w ''zip'' @
          [''FAILURE: Could not create or encrypt the ZIP archive. Check if '' @
           py_quote ''zip'' @ '' is installed.'', banner_rule, ''Done.'']) (ran zip_command (gate_world s w)))
      | Zipped c \<Rightarrow>
          (0, say s [banner_rule, ''Done.''] (snd (transfer_step s (remote_filename (clock w)) (after_zip s w c)))))"
proof (cases "running w")
  case True
  then show ?thesis by (simp add: path_of_def run_running)
next
  case nr: False
  show ?thesis
  proof (cases "local_fs w FILE_TO_TRANSFER")
    case None
    with nr show ?thesis by (simp add: path_of_def run_no_file)
  next
    case (Some c)
    show ?thesis
    proof (cases "tools w ''zip''")
      case Exec
      with nr Some show ?thesis
        by (cases "zip_fails w") (simp_all add: path_of_def run_zip_fail run_zip_ok zip_fails_def)
    qed (use nr Some in \<open>simp_all add: path_of_def run_zip_Absent run_zip_NoExec\<close>)
  qed
qed

lemma gate_world_log:
  "cmd_log (gate_world s w) =
     cmd_log w @ (if tools w ''pgrep'' = Exec then [[''pgrep'', ''-x'', PROGRAM_TO_CHECK]] else [])"
  by (cases "tools w ''pgrep''") (simp_all add: gate_world_def check_process_running_cases)

lemma gate_world_silent: "console (gate_world True w) = console w"
  by (cases "tools w ''pgrep''") (simp_all add: gate_world_def check_process_running_cases)

lemma gate_world_banner: "\<exists>ms. console (gate_world False w) = console w @ banner_lines w @ ms"
  by (cases "tools w ''pgrep''") (auto simp: gate_world_def check_process_running_cases say_def)

lemma after_zip_fields [simp]:
  "local_fs (after_zip s w c) ARCHIVE_FILENAME = Some (new_archive w c)"
  "local_fs (after_zip s w c) = (local_fs w)(ARCHIVE_FILENAME \<mapsto> new_archive w c)"
  "remote_fs (after_zip s w c) = remote_fs w"
  "tools (after_zip s w c) = tools w" "scp_status (after_zip s w c) = scp_status w"
  "rm_fault (after_zip s w c) = rm_fault w"
  "cmd_log (after_zip s w c) = cmd_log (gate_world s w) @ [zip_command]"
  "console (after_zip True w c) = console w"
  by (simp_all add: after_zip_def new_archive_def gate_world_silent)

lemma path_of_Zipped:
  "\<not> (tools w ''pgrep'' = Exec \<and> PROGRAM_TO_CHECK \<in> set (procs w)) \<Longrightarrow>
   local_fs w FILE_TO_TRANSFER = Some c \<Longrightarrow> tools w ''zip'' = Exec \<Longrightarrow> zip_status w = 0 \<Longrightarrow>
   zip_readable (local_fs w ARCHIVE_FILENAME) \<Longrightarrow> path_of w = Zipped c"
  by (auto simp: path_of_def running_def zip_fails_def)

lemma zipped_run_effects:
  "path_of w = Zipped c \<Longrightarrow>
   fst (run_script s w) = 0 \<and>
   local_fs (snd (run_script s w)) =
     (if scp_ok w \<and> rm_fault w = None then (local_fs w)(ARCHIVE_FILENAME := None)
      else (local_fs w)(ARCHIVE_FILENAME \<mapsto> new_archive w c)) \<and>
   remote_fs (snd (run_script s w)) =
     (if scp_ok w then (remote_fs w)((REMOTE_HOST, REMOTE_PATH @ remote_filename (clock w)) \<mapsto> new_archive w c)
      else remote_fs w)"
  using transfer_step_effects [of "after_zip s w c" "new_archive w c" s "remote_filename (clock w)"]
  by (simp add: run_script_path scp_ok_def)

section \<open>Properties of a run\<close>

text \<open>
  C1. When \<^verbatim>\<open>pgrep\<close> finds the monitored program, the run exits 0 having done
  nothing but print the banner, the check, the "is running" status and the footer, and
  run \<^verbatim>\<open>pgrep\<close>: no file is archived, copied or deleted.
\<close>

theorem run_script_process_running:
  assumes "tools w ''pgrep'' = Exec" "PROGRAM_TO_CHECK \<in> set (procs w)"
  shows "run_script s w =
     (0, (say s (banner_lines w @ [check_msg PROGRAM_TO_CHECK, running_msg, banner_rule, ''Done.'']) w)
           \<lparr>cmd_log := cmd_log w @ [[''pgrep'', ''-x'', PROGRAM_TO_CHECK]]\<rparr>)"
  using assms
  by (simp add: run_script_path path_of_def running_def gate_world_def check_process_running_Exec)
    (simp add: say_def)

theorem run_script_process_running_witness:
  "tools (example_world\<lparr>procs := [''xxxx'']\<rparr>) ''pgrep'' = Exec \<and>
   PROGRAM_TO_CHECK \<in> set (procs (example_world\<lparr>procs := [''xxxx'']\<rparr>)) \<and>
   fst (run_script False (example_world\<lparr>procs := [''xxxx'']\<rparr>)) = 0 \<and>
   local_fs (snd (run_script False (example_world\<lparr>procs := [''xxxx'']\<rparr>))) = local_fs example_world \<and>
   remote_fs (snd (run_script False (example_world\<lparr>procs := [''xxxx'']\<rparr>))) = Map.empty \<and>
   cmd_log (snd (run_script False (example_world\<lparr>procs := [''xxxx'']\<rparr>))) = [[''pgrep'', ''-x'', ''xxxx'']]"
  using run_script_process_running [of "example_world\<lparr>procs := [''xxxx'']\<rparr>" False]
  by (simp add: example_world_def config_defs say_def)

text \<open>
  C2. When the monitored program is not found (or \<^verbatim>\<open>pgrep\<close> cannot run),
  \<^verbatim>\<open>main\<close> proceeds past the gate: after the banner and the check it runs
  \<^verbatim>\<open>execute_transfer_logic\<close> and then prints the footer if that returns.
\<close>

theorem main_not_running:
  "\<not> (tools w ''pgrep'' = Exec \<and> PROGRAM_TO_CHECK \<in> set (procs w)) \<Longrightarrow>
   main s w = finish s (execute_transfer_logic s (gate_world s w))"
proof -
  assume "\<not> (tools w ''pgrep'' = Exec \<and> PROGRAM_TO_CHECK \<in> set (procs w))"
  then have "\<not> running w" by (simp add: running_def)
  then show ?thesis by (simp add: main_gate gate_result finish_def split: prod.split sum.split)
qed

theorem main_not_running_witness:
  "\<not> (tools example_world ''pgrep'' = Exec \<and> PROGRAM_TO_CHECK \<in> set (procs example_world)) \<and>
   main False example_world = finish False (execute_transfer_logic False (gate_world False example_world))"
  using main_not_running [of example_world False] by (simp add: example_world_facts)

text \<open>
  C3. When the program is not running and the source file is missing, the run exits 0,
  writes no archive, copies nothing and runs neither \<^verbatim>\<open>zip\<close> nor \<^verbatim>\<open>scp\<close>.
\<close>

theorem run_script_no_source_file:
  assumes "\<not> (tools w ''pgrep'' = Exec \<and> PROGRAM_TO_CHECK \<in> set (procs w))"
    "local_fs w FILE_TO_TRANSFER = None"
  shows "fst (run_script s w) = 0 \<and> local_fs (snd (run_script s w)) = local_fs w \<and>
     remote_fs (snd (run_script s w)) = remote_fs w \<and>
     cmd_log (snd (run_script s w)) =
       cmd_log w @ (if tools w ''pgrep'' = Exec then [[''pgrep'', ''-x'', PROGRAM_TO_CHECK]] else [])"
  using assms by (simp add: run_script_path path_of_def running_def gate_world_log)

theorem run_script_no_source_file_witness:
  "\<not> (tools (example_world\<lparr>local_fs := Map.empty\<rparr>) ''pgrep'' = Exec \<and>
        PROGRAM_TO_CHECK \<in> set (procs (example_world\<lparr>local_fs := Map.empty\<rparr>))) \<and>
   local_fs (example_world\<lparr>local_fs := Map.empty\<rparr>) FILE_TO_TRANSFER = None \<and>
   fst (run_script False (example_world\<lparr>local_fs := Map.empty\<rparr>)) = 0 \<and>
   remote_fs (snd (run_script False (example_world\<lparr>local_fs := Map.empty\<rparr>))) = Map.empty \<and>
   cmd_log (snd (run_script False (example_world\<lparr>local_fs := Map.empty\<rparr>))) = [[''pgrep'', ''-x'', ''xxxx'']]"
  using run_script_no_source_file [of "example_world\<lparr>local_fs := Map.empty\<rparr>" False]
  by (simp add: example_world_def config_defs)

text \<open>
  C11. When the program is not running, the source file exists and archiving, copying
  and deleting all succeed, the run exits 0, the local archive is gone and the remote
  host holds the encrypted archive under \<^verbatim>\<open>REMOTE_PATH\<close> and the time-stamped name.
\<close>

theorem run_script_transferred:
  assumes "\<not> (tools w ''pgrep'' = Exec \<and> PROGRAM_TO_CHECK \<in> set (procs w))"
    "local_fs w FILE_TO_TRANSFER = Some c" "tools w ''zip'' = Exec" "zip_status w = 0"
    "zip_readable (local_fs w ARCHIVE_FILENAME)"
    "tools w ''scp'' = Exec" "scp_status w = 0" "rm_fault w = None"
  shows "fst (run_script s w) = 0 \<and>
     local_fs (snd (run_script s w)) = (local_fs w)(ARCHIVE_FILENAME := None) \<and>
     remote_fs (snd (run_script s w)) =
       (remote_fs w)((REMOTE_HOST, REMOTE_PATH @ remote_filename (clock w)) \<mapsto> new_archive w c)"
  using zipped_run_effects [OF path_of_Zipped [OF assms(1-5)], of s] assms(6-8)
  by (simp add: scp_ok_def)

theorem run_script_transferred_witness:
  "fst (run_script False example_world) = 0 \<and>
   local_fs (snd (run_script False example_world)) ARCHIVE_FILENAME = None \<and>
   remote_fs (snd (run_script False example_world))
     (''172.168.1.100'', ''/home/me/Desktop/monitor/rec/backup_20261109_010203.zip'') =
     Some (ZipArchive [(''test.txt'', ''STRONG_PASSWORD'', Blob ''payload'')])"
proof -
  have "remote_filename (DateTime 2026 11 9 1 2 3 0) = ''backup_20261109_010203.zip''"
    by (simp add: remote_filename_def dec_field_def zfill_def show_nat_big)
  with run_script_transferred [of example_world "Blob ''payload''" False] show ?thesis
    by (simp add: example_world_def new_archive_def config_defs)
qed

text \<open>
  C12. When archiving succeeds but the copy client reports a failure, the run still exits
  0, the encrypted archive stays at \<^verbatim>\<open>ARCHIVE_FILENAME\<close> and nothing reaches the remote
  host.
\<close>

theorem run_script_copy_failed:
  assumes "\<not> (tools w ''pgrep'' = Exec \<and> PROGRAM_TO_CHECK \<in> set (procs w))"
    "local_fs w FILE_TO_TRANSFER = Some c" "tools w ''zip'' = Exec" "zip_status w = 0"
    "zip_readable (local_fs w ARCHIVE_FILENAME)"
    "scp_status w \<noteq> 0"
  shows "fst (run_script s w) = 0 \<and>
     local_fs (snd (run_script s w)) = (local_fs w)(ARCHIVE_FILENAME \<mapsto> new_archive w c) \<and>
     remote_fs (snd (run_script s w)) = remote_fs w"
  using zipped_run_effects [OF path_of_Zipped [OF assms(1-5)], of s] assms(6)
  by (simp add: scp_ok_def)

theorem run_script_copy_failed_witness:
  "fst (run_script False (example_world\<lparr>scp_status := 1\<rparr>)) = 0 \<and>
   local_fs (snd (run_script False (example_world\<lparr>scp_status := 1\<rparr>))) ARCHIVE_FILENAME =
     Some (ZipArchive [(''test.txt'', ''STRONG_PASSWORD'', Blob ''payload'')]) \<and>
   remote_fs (snd (run_script False (example_world\<lparr>scp_status := 1\<rparr>))) = Map.empty"
  using run_script_copy_failed [of "example_world\<lparr>scp_status := 1\<rparr>" "Blob ''payload''" False]
  by (simp add: example_world_def new_archive_def config_defs)

text \<open>
  C13. The exit status is 0 on every path but one: when the program is not running, the
  source file exists and \<^verbatim>\<open>zip\<close> is installed but cannot be executed, the
  \<^verbatim>\<open>PermissionError\<close> is caught by neither \<^verbatim>\<open>except\<close> clause of the archiving
  step, escapes \<^verbatim>\<open>main\<close>, and the interpreter exits 1 without printing the footer.
\<close>

theorem run_script_exit_status:
  "fst (run_script s w) =
     (if \<not> (tools w ''pgrep'' = Exec \<and> PROGRAM_TO_CHECK \<in> set (procs w)) \<and>
         local_fs w FILE_TO_TRANSFER \<noteq> None \<and> tools w ''zip'' = NoExec then 1 else 0)"
  by (simp add: run_script_path path_of_def running_def split: path.split option.split binstate.split)

theorem run_script_exit_status_witness:
  "fst (run_script True (example_world\<lparr>tools := (\<lambda>p. if p = ''zip'' then NoExec else Exec)\<rparr>)) = 1"
  using run_script_exit_status [of True "example_world\<lparr>tools := (\<lambda>p. if p = ''zip'' then NoExec else Exec)\<rparr>"]
  by (simp add: example_world_def config_defs)

text \<open>
  C14. In silent mode the script prints nothing and discards the tools' output; the only
  output of a silent run is the interpreter's traceback on the path of C13.
\<close>

theorem run_script_silent:
  "console (snd (run_script True w)) =
     console w @ (if \<not> (tools w ''pgrep'' = Exec \<and> PROGRAM_TO_CHECK \<in> set (procs w)) \<and>
                     local_fs w FILE_TO_TRANSFER \<noteq> None \<and> tools w ''zip'' = NoExec
                  then traceback (PermissionError ''zip'') else [])"
proof (cases "path_of w")
  case (Zipped c)
  then show ?thesis
    using transfer_step_effects [of "after_zip True w c" "new_archive w c" True "remote_filename (clock w)"]
    by (auto simp: run_script_path path_of_def gate_world_silent split: if_splits option.splits binstate.splits)
qed (auto simp: run_script_path path_of_def running_def gate_world_silent
    split: if_splits option.splits binstate.splits)

theorem run_script_silent_witness:
  "console (snd (run_script True (example_world\<lparr>tools := (\<lambda>p. if p = ''zip'' then NoExec else Exec)\<rparr>))) =
     traceback (PermissionError ''zip'')"
  using run_script_silent [of "example_world\<lparr>tools := (\<lambda>p. if p = ''zip'' then NoExec else Exec)\<rparr>"]
  by (simp add: example_world_def config_defs)

text \<open>
  C15. Outside silent mode every run starts with the four banner lines (rule, time,
  host name, separator), and every run that exits 0 ends with the rule and
  \<^verbatim>\<open>Done.\<close>.
\<close>

theorem run_script_banner:
  "\<exists>ms. console (snd (run_script False w)) = console w @ banner_lines w @ ms \<and>
        (fst (run_script False w) = 0 \<longrightarrow> (\<exists>ms'. ms = ms' @ [banner_rule, ''Done.'']))"
proof -
  obtain ms0 where g: "console (gate_world False w) = console w @ banner_lines w @ ms0"
    using gate_world_banner by blast
  show ?thesis
  proof (cases "path_of w")
    case (Zipped c)
    obtain ms1 where "console (snd (transfer_step False (remote_filename (clock w)) (after_zip False w c))) =
        console (after_zip False w c) @ ms1"
      using transfer_step_console by blast
    with Zipped g show ?thesis
      by (simp add: run_script_path after_zip_def console_say)
  qed (use g in \<open>simp_all add: run_script_path console_say\<close>)
qed

theorem run_script_banner_witness:
  "\<exists>ms. console (snd (run_script False example_world)) =
     [banner_rule, ''Date/Time: 2026-11-09 01:02:03'', ''Hostname: monitor'', banner_sep] @ ms @
     [banner_rule, ''Done.'']"
proof -
  have "banner_time (DateTime 2026 11 9 1 2 3 0) = ''2026-11-09 01:02:03''"
    by (simp add: banner_time_def dec_field_def zfill_def show_nat_big)
  moreover have "fst (run_script False example_world) = 0"
    using run_script_exit_status [of False example_world] by (simp add: example_world_facts)
  ultimately show ?thesis using run_script_banner [of example_world]
    by (auto simp: banner_lines_def example_world_def)
qed

text \<open>
  C16. The external commands a run executes, in order: \<^verbatim>\<open>pgrep\<close> when it can run;
  then, on the transfer path, \<^verbatim>\<open>zip\<close> when it can run, and \<^verbatim>\<open>scp\<close> only after
  \<^verbatim>\<open>zip\<close> succeeded. No command runs twice and the copy never precedes the archive.
\<close>

theorem run_script_commands:
  "cmd_log (snd (run_script s w)) =
     cmd_log w @ (if tools w ''pgrep'' = Exec then [[''pgrep'', ''-x'', PROGRAM_TO_CHECK]] else []) @
     (case path_of w of
        ZipFailed \<Rightarrow> [zip_command]
      | Zipped c \<Rightarrow> zip_command # (if tools w ''scp'' = Exec then [scp_command (remote_filename (clock w))] else [])
      | _ \<Rightarrow> [])"
proof (cases "path_of w")
  case (Zipped c)
  then show ?thesis
    using transfer_step_effects [of "after_zip s w c" "new_archive w c" s "remote_filename (clock w)"]
    by (simp add: run_script_path gate_world_log)
qed (simp_all add: run_script_path gate_world_log)

theorem run_script_commands_witness:
  "cmd_log (snd (run_script False example_world)) =
     [[''pgrep'', ''-x'', ''xxxx''], zip_command, scp_command ''backup_20261109_010203.zip'']"
proof -
  have "remote_filename (DateTime 2026 11 9 1 2 3 0) = ''backup_20261109_010203.zip''"
    by (simp add: remote_filename_def dec_field_def zfill_def show_nat_big)
  moreover have "path_of example_world = Zipped (Blob ''payload'')"
    by (simp add: path_of_def running_def zip_fails_def example_world_facts)
  ultimately show ?thesis using run_script_commands [of False example_world]
    by (simp add: example_world_def config_defs)
qed

end
