(* ===== verification/Spec2Isabelle.thy ===== *)
theory Spec2Isabelle
  imports Script
begin

text \<open>
  \<^bold>\<open>A verification development of \<^verbatim>\<open>src/pro.py\<close>\<close> (sup3rDav3/process): a
  one-shot monitoring script. It asks \<^verbatim>\<open>pgrep -x\<close> whether a named program is
  running; if it is not, it encrypts a local file into a zip archive, copies the archive
  with \<^verbatim>\<open>scp\<close> to a remote directory under a time-stamped name, and deletes the local
  archive when the copy succeeded. Every line it prints goes through
  \<^verbatim>\<open>log_message\<close>, which a \<^verbatim>\<open>--silent\<close> flag mutes.

  \<^bold>\<open>How the program is modelled.\<close> The script is a sequence of Python statements over
  an environment, so the model is a shallow embedding in an exception-and-state monad:
  a statement is a function from the world to a result (\<open>Inl\<close> a raised Python
  exception, \<open>Inr\<close> a value) and the world it leaves. \<^verbatim>\<open>try\<close>/\<^verbatim>\<open>except\<close> is
  \<open>catchE\<close> with a handler that re-raises what no clause matches; \<^verbatim>\<open>return\<close> from
  an \<^verbatim>\<open>except\<close> clause is a Boolean the caller branches on. The world records what
  the script can observe or change: the process names, the local files, the remote files,
  which tools are installed and executable, the exit statuses the environment imposes on
  \<^verbatim>\<open>zip\<close> and \<^verbatim>\<open>scp\<close>, the fault \<^verbatim>\<open>unlink\<close> reports, the clock, the host name, the
  console and the list of commands executed.

  \<^bold>\<open>Theories and what they model.\<close>
  \<^item> \<open>Prelude\<close>: the monad (\<open>returnE\<close>, \<open>throwE\<close>, \<open>bindE\<close>, \<open>thenE\<close>,
    \<open>catchE\<close>) with its laws and the evaluation rules collected in \<open>exc_simps\<close>;
    decimal printing and reading (\<open>show_nat\<close>, \<open>zfill\<close>, \<open>read_nat\<close>,
    \<open>dec_fixed\<close>) with their round-trip lemmas.
  \<^item> \<open>Timestamp\<close>: Python's \<^verbatim>\<open>datetime\<close> (a datatype with a \<open>linorder\<close>
    instance for Python's comparison), \<^verbatim>\<open>strftime\<close> for the directives the script
    uses, the remote name of lines 59--60 (\<open>remote_filename\<close>), the banner time of line
    137 (\<open>banner_time\<close>) and a parser for remote names.
  \<^item> \<open>Os_World\<close>: the environment, not code of the repository: Python exceptions and
    their messages, the world record, \<^verbatim>\<open>print\<close>, \<^verbatim>\<open>os.path.exists\<close>,
    \<^verbatim>\<open>os.remove\<close>, \<^verbatim>\<open>datetime.now\<close>, \<^verbatim>\<open>os.uname\<close>, \<^verbatim>\<open>subprocess.run\<close> and
    the three tools as they behave on the command lines the script builds; the reasons
    an unlink of an existing file fails (\<open>unlink_fault\<close>: permission, read-only file
    system, busy file) and the exceptions they raise (\<open>unlink_exn\<close>).
  \<^item> \<open>Config\<close>: the configuration constants (lines 8--15) and \<open>log_message\<close>
    (lines 18--21); \<open>say\<close> names "these lines were logged".
  \<^item> \<open>Process_Check\<close>: \<open>check_process_running\<close> (lines 23--44).
  \<^item> \<open>Transfer_Logic\<close>: \<open>execute_transfer_logic\<close> (lines 46--125), with the commands
    \<open>zip_command\<close>, \<open>remote_target\<close>, \<open>scp_command\<close> and its two \<^verbatim>\<open>try\<close>
    statements \<open>archive_step\<close> (lines 64--90) and \<open>transfer_step\<close> (lines 93--125).
  \<^item> \<open>Script\<close>: \<open>main\<close> (lines 128--147) and \<open>run_script\<close>, the interpreter's
    treatment of the entry point (lines 149--150): exit status 0, or a traceback and 1.

  \<^bold>\<open>What is proved.\<close> Each component's operations are characterised on every branch by
  exact equations (the \<open>_Exec\<close>, \<open>_Absent\<close>, \<open>_NoExec\<close>, \<open>_ok\<close>, \<open>_fail\<close>
  lemmas), and a whole run by one characteristic equation over the path it takes
  (\<open>Script.run_script_path\<close>). On top of them:
  \<^item> the gate (C1, C2, C4): a running program stops the run after the report; a program
    that is not found, or a \<^verbatim>\<open>pgrep\<close> that cannot run, lets it through;
  \<^item> the archive invariant (C5--C7): once written, the archive is deleted exactly when the
    copy and the unlink succeed, it is never lost (it is local or remote), and nothing is
    touched when it cannot be written;
  \<^item> the remote name (C8--C10): it always has the shape \<^verbatim>\<open>backup_DDDDDDDD_DDDDDD.zip\<close>,
    printing and parsing are inverse, and runs in different seconds get different names;
  \<^item> the scenarios of the specification (C3, C11, C12): no source file, full success,
    failed copy;
  \<^item> error handling and output (C13--C16): the exit status on every path, silent mode,
    the banner and footer, and the order of the external commands.

  \<^bold>\<open>Findings.\<close> The specification says every failure is handled and the run always
  reaches \<^verbatim>\<open>Done.\<close>; C13 and C14 show the exception: an archiver that is installed
  but not executable raises \<^verbatim>\<open>PermissionError\<close>, which the archiving step does not
  catch, so the run ends with a traceback and status 1, even in silent mode. The
  specification says the archive is removed exactly when the transfer succeeds; C5 shows
  that a failing unlink keeps it after a successful copy. One defect lies outside the
  model: \<^verbatim>\<open>os.remove\<close> shares the \<^verbatim>\<open>try\<close> of the copy, so if another process
  deleted the archive between the copy and the unlink, its \<^verbatim>\<open>FileNotFoundError\<close>
  would be reported as "'scp' utility not found" right after the copy's success message.
  The model has no concurrent process, and its \<^verbatim>\<open>unlink\<close> raises
  \<^verbatim>\<open>FileNotFoundError\<close> only for an absent path (\<open>unlink_fault\<close>), so this path is
  unreachable in it.

  \<^bold>\<open>Not modelled.\<close> \<^verbatim>\<open>argparse\<close> (lines 130--132, a library: \<open>main\<close> takes the
  parsed flag); the regular-expression reading of \<^verbatim>\<open>pgrep\<close>'s pattern (the name is
  matched literally, which is exact for the configured name); the content of the
  interpreter's traceback beyond its first and last lines; interrupts and concurrent
  changes of the file system during a run (the world changes only through the script's
  own calls, and the clock is read once per run). No loop occurs in the script, so no
  fuel or termination argument is needed: every definition is total and executable.

  \<^bold>\<open>Plan for the next sittings.\<close> Repeated runs as an \<open>inductive\<close> step relation
  over worlds (script runs interleaved with environment steps), with the invariant that
  remote backups are never overwritten while the clock advances; the archive update that folds a
  stale archive into the next copy; the order of remote names against the order of
  times; the 15-character limit of process names that \<^verbatim>\<open>pgrep -x\<close> compares.
\<close>

end
